theory Spec2Isabelle
  imports Main "HOL-Library.Sublist"
begin

section \<open>The version-control backend\<close>

text \<open>
  Every function of \<^verbatim>\<open>internal/git/git.go\<close> runs the external program \<^verbatim>\<open>git\<close> with
  an argument list and looks at its exit status and its standard output. The program is a
  parameter of the model: a function from the argument list and the state of the world
  (repository, remote, working tree) to the exit status (\<open>True\<close> for status 0), the bytes
  written to standard output, and the new state of the world.
\<close>

type_synonym 'w git = "string list \<Rightarrow> 'w \<Rightarrow> (bool \<times> string) \<times> 'w"

text \<open>
  The environment of a run: the world, the argument lists handed to \<^verbatim>\<open>logCmd\<close> so far
  (every invocation passes through it, oldest first), and the lines written to the two
  writers of \<^verbatim>\<open>sync\<close>.
\<close>

record 'w env =
  world :: 'w
  cmds :: "string list list"
  stdout :: "string list"
  stderr :: "string list"

text \<open>
  Go errors. \<open>ExitError\<close> is the error of \<^verbatim>\<open>os/exec\<close> for an invocation that did not
  exit with status 0; \<open>Errorf m\<close> is \<^verbatim>\<open>fmt.Errorf(m)\<close>; \<open>Wrapf p e\<close> is
  \<^verbatim>\<open>fmt.Errorf(p + "%w", e)\<close>. \<open>SliceBounds\<close> is no error value: it stands for the
  run-time panic of the slice expression \<^verbatim>\<open>r.A[:7]\<close> on a string shorter than seven bytes,
  which ends the run.
\<close>

datatype error = ExitError | Errorf string | Wrapf string error | SliceBounds

subsection \<open>Strings\<close>

definition newline :: char where
  "newline = CHR 0x0A"

text \<open>\<^verbatim>\<open>strings.TrimRight(s, "\n")\<close>\<close>

definition trimRight :: "string \<Rightarrow> string" where
  "trimRight s = rev (dropWhile (\<lambda>c. c = newline) (rev s))"

text \<open>
  \<^verbatim>\<open>strings.Split(s, "\n")\<close>: one piece more than there are separators. The first
  argument of \<open>split_from\<close> is the piece being read, last character first.
\<close>

fun split_from :: "string \<Rightarrow> string \<Rightarrow> string list" where
  "split_from piece [] = [rev piece]"
| "split_from piece (c # cs) =
     (if c = newline then rev piece # split_from [] cs else split_from (c # piece) cs)"

definition split_nl :: "string \<Rightarrow> string list" where
  "split_nl s = split_from [] s"

definition splitLines :: "string \<Rightarrow> string list" where
  "splitLines s = (if s = [] then [] else split_nl s)"

text \<open>\<^verbatim>\<open>strings.HasPrefix\<close> is \<^const>\<open>prefix\<close>; \<^verbatim>\<open>strings.TrimPrefix\<close>:\<close>

definition trimPrefix :: "string \<Rightarrow> string \<Rightarrow> string" where
  "trimPrefix s p = (if prefix p s then drop (length p) s else s)"

text \<open>Lookup in a Go map of strings: a missing key reads as the empty string.\<close>

definition lookup :: "(string \<rightharpoonup> string) \<Rightarrow> string \<Rightarrow> string" where
  "lookup m k = (case m k of None \<Rightarrow> [] | Some v \<Rightarrow> v)"

subsection \<open>Running git\<close>

definition logCmd :: "string list \<Rightarrow> 'w env \<Rightarrow> 'w env" where
  "logCmd args s = s\<lparr>cmds := cmds s @ [args]\<rparr>"

definition execGit :: "'w git \<Rightarrow> string list \<Rightarrow> 'w env \<Rightarrow> (error + string) \<times> 'w env" where
  "execGit g args s =
     (let s1 = logCmd args s in
      case g args (world s1) of
        ((ok, out), w) \<Rightarrow>
          if ok then (Inr (trimRight out), s1\<lparr>world := w\<rparr>)
          else (Inl ExitError, s1\<lparr>world := w\<rparr>))"

definition Spawn :: "'w git \<Rightarrow> string list \<Rightarrow> 'w env \<Rightarrow> error option \<times> 'w env" where
  "Spawn g args s =
     (let s1 = logCmd args s in
      case g args (world s1) of
        ((ok, out), w) \<Rightarrow> (if ok then None else Some ExitError, s1\<lparr>world := w\<rparr>))"

definition Run :: "'w git \<Rightarrow> string list \<Rightarrow> 'w env \<Rightarrow> bool \<times> 'w env" where
  "Run g args s =
     (let s1 = logCmd args s in
      case g args (world s1) of ((ok, out), w) \<Rightarrow> (ok, s1\<lparr>world := w\<rparr>))"

text \<open>A call that returns only an error: \<^verbatim>\<open>_, err := execGit(...); return err\<close>.\<close>

definition execErr :: "'w git \<Rightarrow> string list \<Rightarrow> 'w env \<Rightarrow> error option \<times> 'w env" where
  "execErr g args s =
     (case execGit g args s of (Inl e, s1) \<Rightarrow> (Some e, s1) | (Inr out, s1) \<Rightarrow> (None, s1))"

subsection \<open>The operations of \<^verbatim>\<open>git.go\<close>\<close>

definition MainRemote :: "'w git \<Rightarrow> 'w env \<Rightarrow> (error + string) \<times> 'w env" where
  "MainRemote g s =
     (case execGit g [''remote''] s of
        (Inl e, s1) \<Rightarrow> (Inl (Wrapf ''failed to list remotes: '' e), s1)
      | (Inr out, s1) \<Rightarrow>
          (let remotes = splitLines out in
           if length remotes = 0 then (Inl (Errorf ''no git remotes found''), s1)
           else
             (let known = fold (\<lambda>name m. m(name := True)) remotes (\<lambda>_. False) in
              case find known [''upstream'', ''github'', ''origin''] of
                Some candidate \<Rightarrow> (Inr candidate, s1)
              | None \<Rightarrow> (Inr (remotes ! 0), s1))))"

definition HasRef :: "'w git \<Rightarrow> string \<Rightarrow> 'w env \<Rightarrow> bool \<times> 'w env" where
  "HasRef g ref s = Run g [''show-ref'', ''--verify'', ''--quiet'', ref] s"

definition DefaultBranch :: "'w git \<Rightarrow> string \<Rightarrow> 'w env \<Rightarrow> string \<times> 'w env" where
  "DefaultBranch g remote s =
     (let headRef = ''refs/remotes/'' @ remote @ ''/HEAD'' in
      case execGit g [''symbolic-ref'', ''--quiet'', headRef] s of
        (Inr out, s1) \<Rightarrow> (trimPrefix out (''refs/remotes/'' @ remote @ ''/''), s1)
      | (Inl e, s1) \<Rightarrow>
          (case HasRef g (''refs/remotes/'' @ remote @ ''/main'') s1 of
             (True, s2) \<Rightarrow> (''main'', s2)
           | (False, s2) \<Rightarrow>
               (case HasRef g (''refs/remotes/'' @ remote @ ''/master'') s2 of
                  (True, s3) \<Rightarrow> (''master'', s3)
                | (False, s3) \<Rightarrow> (''main'', s3))))"

definition CurrentBranch :: "'w git \<Rightarrow> 'w env \<Rightarrow> (string \<times> error option) \<times> 'w env" where
  "CurrentBranch g s =
     (case execGit g [''symbolic-ref'', ''--short'', ''HEAD''] s of
        (Inl e, s1) \<Rightarrow> (([], Some (Errorf ''not on any branch'')), s1)
      | (Inr out, s1) \<Rightarrow> ((out, None), s1))"

definition LocalBranches :: "'w git \<Rightarrow> 'w env \<Rightarrow> (error + string list) \<times> 'w env" where
  "LocalBranches g s =
     (case execGit g [''branch'', ''--format=%(refname:short)''] s of
        (Inl e, s1) \<Rightarrow> (Inl (Wrapf ''failed to list branches: '' e), s1)
      | (Inr out, s1) \<Rightarrow> (Inr (splitLines out), s1))"

definition Fetch :: "'w git \<Rightarrow> string \<Rightarrow> 'w env \<Rightarrow> error option \<times> 'w env" where
  "Fetch g remote s = Spawn g [''fetch'', ''--prune'', ''--quiet'', ''--progress'', remote] s"

text \<open>
  The regular expression of \<^verbatim>\<open>BranchRemotes\<close>,
  \<^verbatim>\<open>^branch\.(.+)\.remote\s+(.+)$\<close>, matched as Go's \<^verbatim>\<open>regexp\<close> does: the first group
  takes the longest text for which the rest still matches, then the white space takes the
  longest run that leaves the second group at least one character. A dot matches every
  character but the newline; \<^verbatim>\<open>\s\<close> is tab, newline, form feed, carriage return, space.
\<close>

definition re_dot :: "char \<Rightarrow> bool" where
  "re_dot c = (c \<noteq> newline)"

definition re_space :: "char \<Rightarrow> bool" where
  "re_space c = (c \<in> {CHR 0x09, CHR 0x0A, CHR 0x0C, CHR 0x0D, CHR 0x20})"

definition re_value :: "string \<Rightarrow> string option" where
  "re_value t =
     (let k = length (takeWhile re_space t) in
      case find (\<lambda>j. drop j t \<noteq> [] \<and> list_all re_dot (drop j t)) (rev [1..<Suc k]) of
        None \<Rightarrow> None
      | Some j \<Rightarrow> Some (drop j t))"

definition re_branch_remote :: "string \<Rightarrow> (string \<times> string) option" where
  "re_branch_remote line =
     (if \<not> prefix ''branch.'' line then None
      else
        (let r = drop 7 line in
         case find (\<lambda>i. list_all re_dot (take i r) \<and> prefix ''.remote'' (drop i r)
                         \<and> re_value (drop (i + 7) r) \<noteq> None)
                   (rev [1..<Suc (length r)]) of
           None \<Rightarrow> None
         | Some i \<Rightarrow> Some (take i r, the (re_value (drop (i + 7) r)))))"

text \<open>The pattern handed to \<^verbatim>\<open>git config --get-regexp\<close>; \<open>CHR 0x5C\<close> is the backslash.\<close>

definition config_pattern :: string where
  "config_pattern = ''^branch'' @ [CHR 0x5C] @ ''..*'' @ [CHR 0x5C] @ ''.remote$''"

definition BranchRemotes :: "'w git \<Rightarrow> 'w env \<Rightarrow> (string \<rightharpoonup> string) \<times> 'w env" where
  "BranchRemotes g s =
     (case execGit g [''config'', ''--get-regexp'', config_pattern] s of
        (Inl e, s1) \<Rightarrow> (Map.empty, s1)
      | (Inr out, s1) \<Rightarrow>
          (fold (\<lambda>line result.
                   case re_branch_remote line of
                     None \<Rightarrow> result
                   | Some (name, val) \<Rightarrow> result(name \<mapsto> val))
                (splitLines out) Map.empty, s1))"

text \<open>The suffix that names the upstream of a branch in a revision.\<close>

definition upstream_suffix :: string where
  "upstream_suffix = [CHR 0x40] @ ''{upstream}''"

definition UpstreamRef :: "'w git \<Rightarrow> string \<Rightarrow> 'w env \<Rightarrow> (error + string) \<times> 'w env" where
  "UpstreamRef g branch s =
     execGit g [''rev-parse'', ''--symbolic-full-name'', branch @ upstream_suffix] s"

definition RevParse :: "'w git \<Rightarrow> string list \<Rightarrow> 'w env \<Rightarrow> (error + string list) \<times> 'w env" where
  "RevParse g refs s =
     (case execGit g ([''rev-parse'', ''--quiet''] @ refs) s of
        (Inl e, s1) \<Rightarrow> (Inl e, s1)
      | (Inr out, s1) \<Rightarrow> (Inr (splitLines out), s1))"

definition MergeFFOnly :: "'w git \<Rightarrow> string \<Rightarrow> 'w env \<Rightarrow> error option \<times> 'w env" where
  "MergeFFOnly g ref s = execErr g [''merge'', ''--ff-only'', ''--quiet'', ref] s"

definition UpdateRef :: "'w git \<Rightarrow> string \<Rightarrow> string \<Rightarrow> 'w env \<Rightarrow> error option \<times> 'w env" where
  "UpdateRef g ref target s = execErr g [''update-ref'', ref, target] s"

definition DeleteBranch :: "'w git \<Rightarrow> string \<Rightarrow> 'w env \<Rightarrow> error option \<times> 'w env" where
  "DeleteBranch g name s = execErr g [''branch'', ''-D'', name] s"

definition Checkout :: "'w git \<Rightarrow> string \<Rightarrow> 'w env \<Rightarrow> error option \<times> 'w env" where
  "Checkout g branch s = execErr g [''checkout'', ''--quiet'', branch] s"

definition MergeBase :: "'w git \<Rightarrow> string \<Rightarrow> string \<Rightarrow> 'w env \<Rightarrow> (error + string) \<times> 'w env" where
  "MergeBase g a b s = execGit g [''merge-base'', a, b] s"

definition TreeHash :: "'w git \<Rightarrow> string \<Rightarrow> 'w env \<Rightarrow> (error + string) \<times> 'w env" where
  "TreeHash g ref s = execGit g [''rev-parse'', ref @ ''^{tree}''] s"

definition CommitTree ::
  "'w git \<Rightarrow> string \<Rightarrow> string \<Rightarrow> string \<Rightarrow> 'w env \<Rightarrow> (error + string) \<times> 'w env" where
  "CommitTree g tree parent message s =
     execGit g [''commit-tree'', tree, ''-p'', parent, ''-m'', message] s"

definition Cherry :: "'w git \<Rightarrow> string \<Rightarrow> string \<Rightarrow> 'w env \<Rightarrow> (error + string) \<times> 'w env" where
  "Cherry g upstream head s = execGit g [''cherry'', upstream, head] s"

subsection \<open>Range\<close>

record Range =
  A :: string
  B :: string

definition NewRange :: "'w git \<Rightarrow> string \<Rightarrow> string \<Rightarrow> 'w env \<Rightarrow> (error + Range) \<times> 'w env" where
  "NewRange g a b s =
     (case RevParse g [a, b] s of
        (Inl e, s1) \<Rightarrow> (Inl e, s1)
      | (Inr shas, s1) \<Rightarrow>
          if length shas \<noteq> 2
          then (Inl (Errorf (''failed to resolve refs: '' @ a @ '', '' @ b)), s1)
          else (Inr \<lparr>A = shas ! 0, B = shas ! 1\<rparr>, s1))"

definition IsIdentical :: "Range \<Rightarrow> bool" where
  "IsIdentical r = (A r = B r)"

definition IsAncestor :: "'w git \<Rightarrow> Range \<Rightarrow> 'w env \<Rightarrow> bool \<times> 'w env" where
  "IsAncestor g r s = Run g [''merge-base'', ''--is-ancestor'', A r, B r] s"

section \<open>The reconciliation driver (\<^verbatim>\<open>main.go\<close>)\<close>

definition isSquashMerged ::
  "'w git \<Rightarrow> string \<Rightarrow> string \<Rightarrow> string \<Rightarrow> 'w env \<Rightarrow> bool \<times> 'w env" where
  "isSquashMerged g branchRef targetRef branchName s =
     (case MergeBase g targetRef branchRef s of
        (Inl e, s1) \<Rightarrow> (False, s1)
      | (Inr ancestor, s1) \<Rightarrow>
          (case TreeHash g branchRef s1 of
             (Inl e, s2) \<Rightarrow> (False, s2)
           | (Inr tree, s2) \<Rightarrow>
               (case CommitTree g tree ancestor
                       (''temp squash-merge check for '' @ branchName) s2 of
                  (Inl e, s3) \<Rightarrow> (False, s3)
                | (Inr dangling, s3) \<Rightarrow>
                    (case Cherry g targetRef dangling s3 of
                       (Inl e, s4) \<Rightarrow> (False, s4)
                     | (Inr result, s4) \<Rightarrow> (prefix ''-'' result, s4)))))"

text \<open>The colour codes of \<^verbatim>\<open>sync\<close>; \<open>CHR 0x1B\<close> is the escape character.\<close>

definition green :: "bool \<Rightarrow> string" where
  "green useColor = (if useColor then CHR 0x1B # ''[32m'' else [])"

definition brightGreen :: "bool \<Rightarrow> string" where
  "brightGreen useColor = (if useColor then CHR 0x1B # ''[1;32m'' else [])"

definition red :: "bool \<Rightarrow> string" where
  "red useColor = (if useColor then CHR 0x1B # ''[31m'' else [])"

definition brightRed :: "bool \<Rightarrow> string" where
  "brightRed useColor = (if useColor then CHR 0x1B # ''[1;31m'' else [])"

definition reset :: "bool \<Rightarrow> string" where
  "reset useColor = (if useColor then CHR 0x1B # ''[0m'' else [])"

text \<open>The slice \<^verbatim>\<open>r.A[:7]\<close>, which panics on a string shorter than seven bytes.\<close>

definition short7 :: "string \<Rightarrow> string option" where
  "short7 a = (if length a < 7 then None else Some (take 7 a))"

definition put_stdout :: "string \<Rightarrow> 'w env \<Rightarrow> 'w env" where
  "put_stdout line s = s\<lparr>stdout := stdout s @ [line]\<rparr>"

definition put_stderr :: "string \<Rightarrow> 'w env \<Rightarrow> 'w env" where
  "put_stderr line s = s\<lparr>stderr := stderr s @ [line]\<rparr>"

definition updated_msg :: "bool \<Rightarrow> string \<Rightarrow> string \<Rightarrow> string" where
  "updated_msg useColor branch was =
     green useColor @ ''Updated branch '' @ brightGreen useColor @ branch @ reset useColor
       @ '' (was '' @ was @ '').'' @ [newline]"

definition deleted_msg :: "bool \<Rightarrow> string \<Rightarrow> string \<Rightarrow> string" where
  "deleted_msg useColor branch was =
     red useColor @ ''Deleted branch '' @ brightRed useColor @ branch @ reset useColor
       @ '' (was '' @ was @ '').'' @ [newline]"

definition unpushed_msg :: "string \<Rightarrow> string" where
  "unpushed_msg branch =
     ''warning: '' @ [CHR 0x27] @ branch @ [CHR 0x27]
       @ '' seems to contain unpushed commits'' @ [newline]"

definition not_merged_msg :: "string \<Rightarrow> string \<Rightarrow> string \<Rightarrow> string" where
  "not_merged_msg branch remote defaultBranch =
     ''warning: '' @ [CHR 0x27] @ branch @ [CHR 0x27] @ '' was deleted on '' @ remote
       @ '', but appears not merged into '' @ [CHR 0x27] @ defaultBranch @ [CHR 0x27]
       @ [newline]"

text \<open>
  The variables of \<^verbatim>\<open>sync\<close> that are set before the loop and never change in it.
  \<^verbatim>\<open>currentBranch\<close> is assigned in the loop and is passed on its own.
\<close>

record vars =
  v_useColor :: bool
  v_remote :: string
  v_defaultBranch :: string
  v_defaultRef :: string
  v_branchRemotes :: "string \<rightharpoonup> string"

text \<open>
  Lines 104 to 120 of the loop body: the values of \<^verbatim>\<open>remoteRef\<close> and \<^verbatim>\<open>gone\<close>
  when the comparison starts.
\<close>

definition sync_counterpart ::
  "'w git \<Rightarrow> vars \<Rightarrow> string \<Rightarrow> 'w env \<Rightarrow> (string \<times> bool) \<times> 'w env" where
  "sync_counterpart g v branch s =
     (let remoteRef = ''refs/remotes/'' @ v_remote v @ ''/'' @ branch in
      if lookup (v_branchRemotes v) branch = v_remote v then
        (case UpstreamRef g branch s of
           (Inr upstream, s1) \<Rightarrow> ((upstream, False), s1)
         | (Inl e, s1) \<Rightarrow> (([], True), s1))
      else
        (case HasRef g remoteRef s of
           (False, s1) \<Rightarrow> (([], False), s1)
         | (True, s1) \<Rightarrow> ((remoteRef, False), s1)))"

text \<open>
  Lines 135 to 145: the local branch is behind its counterpart and is fast-forwarded, by a
  fast-forward-only merge when it is the checked-out branch and by moving its reference
  otherwise.
\<close>

definition sync_fast_forward ::
  "'w git \<Rightarrow> vars \<Rightarrow> string \<Rightarrow> string \<Rightarrow> string \<Rightarrow> Range \<Rightarrow> 'w env
     \<Rightarrow> error option \<times> 'w env" where
  "sync_fast_forward g v currentBranch branch remoteRef r s =
     (let localRef = ''refs/heads/'' @ branch in
      case (if branch = currentBranch
            then (case MergeFFOnly g remoteRef s of
                    (Some e, s1) \<Rightarrow>
                      (Some (Wrapf (''failed to fast-forward '' @ branch @ '': '') e), s1)
                  | (None, s1) \<Rightarrow> (None, s1))
            else (case UpdateRef g localRef remoteRef s of
                    (Some e, s1) \<Rightarrow> (Some (Wrapf (''failed to update '' @ branch @ '': '') e), s1)
                  | (None, s1) \<Rightarrow> (None, s1))) of
        (Some e, s1) \<Rightarrow> (Some e, s1)
      | (None, s1) \<Rightarrow>
          (case short7 (A r) of
             None \<Rightarrow> (Some SliceBounds, s1)
           | Some was \<Rightarrow> (None, put_stdout (updated_msg (v_useColor v) branch was) s1)))"

text \<open>Lines 124 to 148: the branch has a remote counterpart.\<close>

definition sync_compare ::
  "'w git \<Rightarrow> vars \<Rightarrow> string \<Rightarrow> string \<Rightarrow> string \<Rightarrow> 'w env \<Rightarrow> error option \<times> 'w env" where
  "sync_compare g v currentBranch branch remoteRef s =
     (let localRef = ''refs/heads/'' @ branch in
      case NewRange g localRef remoteRef s of
        (Inl e, s1) \<Rightarrow> (Some e, s1)
      | (Inr r, s1) \<Rightarrow>
          if IsIdentical r then (None, s1)
          else
            (case IsAncestor g r s1 of
               (True, s2) \<Rightarrow> sync_fast_forward g v currentBranch branch remoteRef r s2
             | (False, s2) \<Rightarrow> (None, put_stderr (unpushed_msg branch) s2)))"

text \<open>
  Lines 164 to 174: the branch is deleted, after a switch to the default branch when it is
  the checked-out one. The result carries the value of \<^verbatim>\<open>currentBranch\<close> after the
  block.
\<close>

definition sync_delete ::
  "'w git \<Rightarrow> vars \<Rightarrow> string \<Rightarrow> string \<Rightarrow> Range \<Rightarrow> 'w env
     \<Rightarrow> (error option \<times> string) \<times> 'w env" where
  "sync_delete g v currentBranch branch r s =
     (case (if branch = currentBranch
            then (case Checkout g (v_defaultBranch v) s of
                    (Some e, s1) \<Rightarrow>
                      ((Some (Wrapf (''failed to checkout '' @ v_defaultBranch v @ '': '') e),
                        currentBranch), s1)
                  | (None, s1) \<Rightarrow> ((None, v_defaultBranch v), s1))
            else ((None, currentBranch), s)) of
        ((Some e, cur), s1) \<Rightarrow> ((Some e, cur), s1)
      | ((None, cur), s1) \<Rightarrow>
          (case DeleteBranch g branch s1 of
             (Some e, s2) \<Rightarrow> ((Some (Wrapf (''failed to delete '' @ branch @ '': '') e), cur), s2)
           | (None, s2) \<Rightarrow>
               (case short7 (A r) of
                  None \<Rightarrow> ((Some SliceBounds, cur), s2)
                | Some was \<Rightarrow>
                    ((None, cur), put_stdout (deleted_msg (v_useColor v) branch was) s2))))"

text \<open>Lines 151 to 178: the upstream branch was deleted from the remote.\<close>

definition sync_gone ::
  "'w git \<Rightarrow> vars \<Rightarrow> string \<Rightarrow> string \<Rightarrow> 'w env \<Rightarrow> (error option \<times> string) \<times> 'w env" where
  "sync_gone g v currentBranch branch s =
     (let localRef = ''refs/heads/'' @ branch in
      case NewRange g localRef (v_defaultRef v) s of
        (Inl e, s1) \<Rightarrow> ((Some e, currentBranch), s1)
      | (Inr r, s1) \<Rightarrow>
          (case IsAncestor g r s1 of
             (shouldDelete0, s2) \<Rightarrow>
               (case (if \<not> shouldDelete0
                      then isSquashMerged g localRef (v_defaultRef v) branch s2
                      else (shouldDelete0, s2)) of
                  (True, s3) \<Rightarrow> sync_delete g v currentBranch branch r s3
                | (False, s3) \<Rightarrow>
                    ((None, currentBranch),
                     put_stderr (not_merged_msg branch (v_remote v) (v_defaultBranch v)) s3))))"

text \<open>The loop body, lines 103 to 180.\<close>

definition sync_branch ::
  "'w git \<Rightarrow> vars \<Rightarrow> string \<Rightarrow> string \<Rightarrow> 'w env \<Rightarrow> (error option \<times> string) \<times> 'w env" where
  "sync_branch g v currentBranch branch s =
     (case sync_counterpart g v branch s of
        ((remoteRef, gone), s1) \<Rightarrow>
          if remoteRef \<noteq> [] then
            (case sync_compare g v currentBranch branch remoteRef s1 of
               (e, s2) \<Rightarrow> ((e, currentBranch), s2))
          else if gone then sync_gone g v currentBranch branch s1
          else ((None, currentBranch), s1))"

text \<open>The loop over the branches: the first error ends the run.\<close>

fun sync_loop ::
  "'w git \<Rightarrow> vars \<Rightarrow> string \<Rightarrow> string list \<Rightarrow> 'w env \<Rightarrow> error option \<times> 'w env" where
  "sync_loop g v currentBranch [] s = (None, s)"
| "sync_loop g v currentBranch (branch # branches) s =
     (case sync_branch g v currentBranch branch s of
        ((Some e, cur), s1) \<Rightarrow> (Some e, s1)
      | ((None, cur), s1) \<Rightarrow> sync_loop g v cur branches s1)"

definition sync :: "'w git \<Rightarrow> bool \<Rightarrow> 'w env \<Rightarrow> error option \<times> 'w env" where
  "sync g useColor s =
     (case MainRemote g s of
        (Inl e, s1) \<Rightarrow> (Some e, s1)
      | (Inr remote, s1) \<Rightarrow>
          (case DefaultBranch g remote s1 of
             (defaultBranch, s2) \<Rightarrow>
               (case CurrentBranch g s2 of
                  ((currentBranch, _), s3) \<Rightarrow>
                    (case Fetch g remote s3 of
                       (Some e, s4) \<Rightarrow> (Some (Wrapf ''fetch failed: '' e), s4)
                     | (None, s4) \<Rightarrow>
                         (case BranchRemotes g s4 of
                            (branchRemotes, s5) \<Rightarrow>
                              (case LocalBranches g s5 of
                                 (Inl e, s6) \<Rightarrow> (Some e, s6)
                               | (Inr branches, s6) \<Rightarrow>
                                   sync_loop g
                                     \<lparr>v_useColor = useColor, v_remote = remote,
                                      v_defaultBranch = defaultBranch,
                                      v_defaultRef = ''refs/remotes/'' @ remote @ ''/''
                                                       @ defaultBranch,
                                      v_branchRemotes = branchRemotes\<rparr>
                                     currentBranch branches s6))))))"

section \<open>Observing a run\<close>

text \<open>The invocations made between two environments of one run, oldest first.\<close>

definition issued :: "'w env \<Rightarrow> 'w env \<Rightarrow> string list list" where
  "issued s s' = drop (length (cmds s)) (cmds s')"

text \<open>
  The two invocations of \<^verbatim>\<open>git.go\<close> that act on the checkout (the working tree and
  \<^verbatim>\<open>HEAD\<close>): \<^verbatim>\<open>git merge\<close> and \<^verbatim>\<open>git checkout\<close>.
\<close>

definition touches_checkout :: "string list \<Rightarrow> bool" where
  "touches_checkout args =
     (case args of [] \<Rightarrow> False | a # _ \<Rightarrow> a = ''merge'' \<or> a = ''checkout'')"

text \<open>The run went from \<open>s\<close> to \<open>s'\<close> without acting on the checkout.\<close>

definition extends_quietly :: "'w env \<Rightarrow> 'w env \<Rightarrow> bool" where
  "extends_quietly s s' = (\<exists>cs. cmds s' = cmds s @ cs \<and> \<not> list_ex touches_checkout cs)"

section \<open>The classifier of the specification\<close>

datatype counterpart = CounterpartResolved string | CounterpartGone | CounterpartAbsent

text \<open>
  The state the loop body is in after lines 104 to 120, read off the two tests that
  dispatch on \<^verbatim>\<open>remoteRef\<close> and \<^verbatim>\<open>gone\<close> (lines 122 and 149).
\<close>

definition classified :: "string \<times> bool \<Rightarrow> counterpart" where
  "classified rg =
     (case rg of (remoteRef, gone) \<Rightarrow>
        if remoteRef \<noteq> [] then CounterpartResolved remoteRef
        else if gone then CounterpartGone else CounterpartAbsent)"

text \<open>
  The three rules of the specification, in its words: explicit tracking that points at the
  selected remote; else no explicit tracking and a reference of the same name on the
  selected remote; else absent.
\<close>

definition spec_counterpart :: "'w git \<Rightarrow> vars \<Rightarrow> string \<Rightarrow> 'w env \<Rightarrow> counterpart" where
  "spec_counterpart g v branch s =
     (case v_branchRemotes v branch of
        Some r \<Rightarrow>
          if r = v_remote v then
            (case fst (UpstreamRef g branch s) of
               Inr upstream \<Rightarrow> CounterpartResolved upstream
             | Inl e \<Rightarrow> CounterpartGone)
          else CounterpartAbsent
      | None \<Rightarrow>
          if fst (HasRef g (''refs/remotes/'' @ v_remote v @ ''/'' @ branch) s)
          then CounterpartResolved (''refs/remotes/'' @ v_remote v @ ''/'' @ branch)
          else CounterpartAbsent)"

text \<open>
  The rules with the second one widened: every branch whose tracking configuration does
  not point at the selected remote, whether it has none or names another remote, is
  matched by name.
\<close>

definition amended_counterpart :: "'w git \<Rightarrow> vars \<Rightarrow> string \<Rightarrow> 'w env \<Rightarrow> counterpart" where
  "amended_counterpart g v branch s =
     (if v_branchRemotes v branch = Some (v_remote v) then
        (case fst (UpstreamRef g branch s) of
           Inr upstream \<Rightarrow> CounterpartResolved upstream
         | Inl e \<Rightarrow> CounterpartGone)
      else if fst (HasRef g (''refs/remotes/'' @ v_remote v @ ''/'' @ branch) s)
      then CounterpartResolved (''refs/remotes/'' @ v_remote v @ ''/'' @ branch)
      else CounterpartAbsent)"

section \<open>Scripted backends\<close>

text \<open>
  A backend that answers from a table of invocations and fails on everything else. Its
  world never changes.
\<close>

definition scripted :: "(string list \<times> bool \<times> string) list \<Rightarrow> unit git" where
  "scripted tbl args w =
     (case map_of tbl args of None \<Rightarrow> ((False, []), w) | Some r \<Rightarrow> (r, w))"

definition env0 :: "unit env" where
  "env0 = \<lparr>world = (), cmds = [], stdout = [], stderr = []\<rparr>"

definition vars0 :: "(string \<times> string) list \<Rightarrow> vars" where
  "vars0 tracking =
     \<lparr>v_useColor = False, v_remote = ''origin'', v_defaultBranch = ''main'',
      v_defaultRef = ''refs/remotes/origin/main'', v_branchRemotes = map_of tracking\<rparr>"

text \<open>Two remotes, neither with one of the preferred names.\<close>

definition two_remotes_git :: "unit git" where
  "two_remotes_git = scripted [([''remote''], True, ''fork'' @ [newline] @ ''mine'' @ [newline])]"

text \<open>
  A branch \<^verbatim>\<open>feature\<close> with a branch of the same name on \<^verbatim>\<open>origin\<close>, which is one
  commit behind the local one.
\<close>

definition fork_git :: "unit git" where
  "fork_git = scripted
     [([''show-ref'', ''--verify'', ''--quiet'', ''refs/remotes/origin/feature''], True, []),
      ([''rev-parse'', ''--quiet'', ''refs/heads/feature'', ''refs/remotes/origin/feature''],
         True, ''2222222bbbb'' @ [newline] @ ''1111111aaaa'' @ [newline])]"

text \<open>
  A branch \<^verbatim>\<open>feature\<close> whose upstream is gone. The parameters say whether it is an
  ancestor of \<^verbatim>\<open>origin/main\<close>, what \<^verbatim>\<open>git cherry\<close> prints for the probe commit, and
  which further invocations succeed.
\<close>

definition gone_git ::
  "bool \<Rightarrow> string \<Rightarrow> (string list \<times> bool \<times> string) list \<Rightarrow> unit git" where
  "gone_git ancestor cherry extra = scripted
     ([([''rev-parse'', ''--quiet'', ''refs/heads/feature'', ''refs/remotes/origin/main''],
         True, ''1111111aaaa'' @ [newline] @ ''2222222bbbb'' @ [newline]),
       ([''merge-base'', ''--is-ancestor'', ''1111111aaaa'', ''2222222bbbb''], ancestor, []),
       ([''merge-base'', ''refs/remotes/origin/main'', ''refs/heads/feature''],
         True, ''0000000cccc'' @ [newline]),
       ([''rev-parse'', ''refs/heads/feature^{tree}''], True, ''7777777dddd'' @ [newline]),
       ([''commit-tree'', ''7777777dddd'', ''-p'', ''0000000cccc'', ''-m'',
         ''temp squash-merge check for feature''], True, ''9999999eeee'' @ [newline]),
       ([''cherry'', ''refs/remotes/origin/main'', ''9999999eeee''], True, cherry)] @ extra)"

text \<open>
  A clone whose only branch \<^verbatim>\<open>main\<close> tracks \<^verbatim>\<open>origin/main\<close> and is one commit
  behind it; \<open>attached\<close> says whether \<^verbatim>\<open>HEAD\<close> is on \<^verbatim>\<open>main\<close> or detached.
\<close>

definition behind_git :: "bool \<Rightarrow> unit git" where
  "behind_git attached = scripted
     ([([''remote''], True, ''origin'' @ [newline]),
       ([''symbolic-ref'', ''--quiet'', ''refs/remotes/origin/HEAD''],
          True, ''refs/remotes/origin/main'' @ [newline]),
       ([''fetch'', ''--prune'', ''--quiet'', ''--progress'', ''origin''], True, []),
       ([''config'', ''--get-regexp'', config_pattern],
          True, ''branch.main.remote origin'' @ [newline]),
       ([''branch'', ''--format=%(refname:short)''], True, ''main'' @ [newline]),
       ([''rev-parse'', ''--symbolic-full-name'', ''main'' @ upstream_suffix],
          True, ''refs/remotes/origin/main'' @ [newline]),
       ([''rev-parse'', ''--quiet'', ''refs/heads/main'', ''refs/remotes/origin/main''],
          True, ''1111111aaaa'' @ [newline] @ ''2222222bbbb'' @ [newline]),
       ([''merge-base'', ''--is-ancestor'', ''1111111aaaa'', ''2222222bbbb''], True, []),
       ([''update-ref'', ''refs/heads/main'', ''refs/remotes/origin/main''], True, []),
       ([''merge'', ''--ff-only'', ''--quiet'', ''refs/remotes/origin/main''], True, [])]
      @ (if attached
         then [([''symbolic-ref'', ''--short'', ''HEAD''], True, ''main'' @ [newline])]
         else []))"

section \<open>The contract of the ancestry query\<close>

text \<open>
  What \<^verbatim>\<open>git merge-base --is-ancestor a b\<close> promises: for two commits of the repository
  it exits with status 0 exactly when \<open>a\<close> is reachable from \<open>b\<close> along parent links,
  \<open>a\<close> itself included. \<open>commits w\<close> are the commits of the world \<open>w\<close> and
  \<open>parent w\<close> relates every parent to its child.
\<close>

definition ancestry_contract ::
  "'w git \<Rightarrow> ('w \<Rightarrow> string set) \<Rightarrow> ('w \<Rightarrow> (string \<times> string) set) \<Rightarrow> bool" where
  "ancestry_contract g commits parent =
     (\<forall>a b w. a \<in> commits w \<and> b \<in> commits w \<longrightarrow>
        fst (fst (g [''merge-base'', ''--is-ancestor'', a, b] w)) = ((a, b) \<in> (parent w)\<^sup>*))"

text \<open>
  A backend that knows a commit graph, given as the list of its parent links, and answers
  the ancestry query from it.
\<close>

definition graph_commits :: "(string \<times> string) list \<Rightarrow> string set" where
  "graph_commits w = fst ` set w \<union> snd ` set w"

definition graph_git :: "(string \<times> string) list git" where
  "graph_git args w =
     (if length args = 4 \<and> take 2 args = [''merge-base'', ''--is-ancestor'']
      then ((args ! 2 \<in> graph_commits w \<and> args ! 3 \<in> graph_commits w
             \<and> (args ! 2, args ! 3) \<in> (set w)\<^sup>*, []), w)
      else ((False, []), w))"

definition two_commits :: "(string \<times> string) list env" where
  "two_commits =
     \<lparr>world = [(''1111111aaaa'', ''2222222bbbb'')], cmds = [], stdout = [], stderr = []\<rparr>"

section \<open>Facts about the backend operations\<close>

lemmas git_defs = Let_def upstream_suffix_def execGit_def Run_def Spawn_def execErr_def logCmd_def trimRight_def
  splitLines_def split_nl_def newline_def lookup_def trimPrefix_def
  MainRemote_def HasRef_def DefaultBranch_def CurrentBranch_def LocalBranches_def Fetch_def
  UpstreamRef_def RevParse_def MergeFFOnly_def UpdateRef_def DeleteBranch_def Checkout_def
  MergeBase_def TreeHash_def CommitTree_def Cherry_def NewRange_def IsIdentical_def
  IsAncestor_def

lemmas sync_defs = isSquashMerged_def short7_def put_stdout_def put_stderr_def
  updated_msg_def deleted_msg_def unpushed_msg_def not_merged_msg_def
  green_def brightGreen_def red_def brightRed_def reset_def
  sync_counterpart_def sync_fast_forward_def sync_compare_def sync_delete_def sync_gone_def
  sync_branch_def

lemmas scripted_defs = scripted_def env0_def vars0_def gone_git_def fork_git_def
  two_remotes_git_def behind_git_def

lemma split_from_ne: "split_from piece s \<noteq> []"
  by (induction s arbitrary: piece) auto

lemma splitLines_Nil_iff: "splitLines s = [] \<longleftrightarrow> s = []"
  by (simp add: splitLines_def split_nl_def split_from_ne)

lemma known_fold: "fold (\<lambda>name m. m(name := True)) xs k c \<longleftrightarrow> k c \<or> c \<in> set xs"
  by (induction xs arbitrary: k) auto

lemma lookup_eq: "remote \<noteq> [] \<Longrightarrow> lookup m branch = remote \<longleftrightarrow> m branch = Some remote"
  by (auto simp: lookup_def split: option.splits)

text \<open>Every operation logs exactly its own invocation and writes to neither writer.\<close>

lemma execGit_env:
  "execGit g args s = (r, s') \<Longrightarrow>
     cmds s' = cmds s @ [args] \<and> stdout s' = stdout s \<and> stderr s' = stderr s"
  by (auto simp: execGit_def logCmd_def Let_def split: prod.splits if_splits)

lemma Run_env:
  "Run g args s = (r, s') \<Longrightarrow>
     cmds s' = cmds s @ [args] \<and> stdout s' = stdout s \<and> stderr s' = stderr s"
  by (auto simp: Run_def logCmd_def Let_def split: prod.splits)

lemma Spawn_env:
  "Spawn g args s = (r, s') \<Longrightarrow>
     cmds s' = cmds s @ [args] \<and> stdout s' = stdout s \<and> stderr s' = stderr s"
  by (auto simp: Spawn_def logCmd_def Let_def split: prod.splits)

lemma execErr_env:
  "execErr g args s = (r, s') \<Longrightarrow>
     cmds s' = cmds s @ [args] \<and> stdout s' = stdout s \<and> stderr s' = stderr s"
  by (auto simp: execErr_def split: prod.splits sum.splits dest: execGit_env)

lemma put_stdout_env [simp]:
  "cmds (put_stdout l s) = cmds s" "stderr (put_stdout l s) = stderr s"
  "stdout (put_stdout l s) = stdout s @ [l]" "world (put_stdout l s) = world s"
  by (simp_all add: put_stdout_def)

lemma put_stderr_env [simp]:
  "cmds (put_stderr l s) = cmds s" "stdout (put_stderr l s) = stdout s"
  "stderr (put_stderr l s) = stderr s @ [l]" "world (put_stderr l s) = world s"
  by (simp_all add: put_stderr_def)

lemma NewRange_env:
  "NewRange g a b s = (r, s') \<Longrightarrow>
     cmds s' = cmds s @ [[''rev-parse'', ''--quiet'', a, b]]
     \<and> stdout s' = stdout s \<and> stderr s' = stderr s"
  by (auto simp: NewRange_def RevParse_def split: prod.splits sum.splits if_splits
           dest: execGit_env)

lemma IsAncestor_env:
  "IsAncestor g r s = (b, s') \<Longrightarrow>
     cmds s' = cmds s @ [[''merge-base'', ''--is-ancestor'', A r, B r]]
     \<and> stdout s' = stdout s \<and> stderr s' = stderr s"
  by (auto simp: IsAncestor_def dest: Run_env)

lemma MergeFFOnly_env:
  "MergeFFOnly g ref s = (r, s') \<Longrightarrow>
     cmds s' = cmds s @ [[''merge'', ''--ff-only'', ''--quiet'', ref]]
     \<and> stdout s' = stdout s \<and> stderr s' = stderr s"
  by (auto simp: MergeFFOnly_def dest: execErr_env)

lemma UpdateRef_env:
  "UpdateRef g ref target s = (r, s') \<Longrightarrow>
     cmds s' = cmds s @ [[''update-ref'', ref, target]]
     \<and> stdout s' = stdout s \<and> stderr s' = stderr s"
  by (auto simp: UpdateRef_def dest: execErr_env)

lemma Checkout_env:
  "Checkout g b s = (r, s') \<Longrightarrow>
     cmds s' = cmds s @ [[''checkout'', ''--quiet'', b]]
     \<and> stdout s' = stdout s \<and> stderr s' = stderr s"
  by (auto simp: Checkout_def dest: execErr_env)

lemma DeleteBranch_env:
  "DeleteBranch g b s = (r, s') \<Longrightarrow>
     cmds s' = cmds s @ [[''branch'', ''-D'', b]]
     \<and> stdout s' = stdout s \<and> stderr s' = stderr s"
  by (auto simp: DeleteBranch_def dest: execErr_env)

lemma Fetch_env:
  "Fetch g remote s = (r, s') \<Longrightarrow>
     cmds s' = cmds s @ [[''fetch'', ''--prune'', ''--quiet'', ''--progress'', remote]]"
  by (auto simp: Fetch_def dest: Spawn_env)

section \<open>Remote selection\<close>

text \<open>
  Claim C10. When \<^verbatim>\<open>git remote\<close> succeeds and lists at least one remote, none of them
  named upstream, github or origin, \<open>MainRemote\<close> returns the first remote of the
  listing. It fails exactly when the invocation fails or the listing is empty.
\<close>

theorem MainRemote_fallback:
  "(\<forall>out s1. execGit g [''remote''] s = (Inr out, s1) \<and> splitLines out \<noteq> []
        \<and> ''upstream'' \<notin> set (splitLines out) \<and> ''github'' \<notin> set (splitLines out)
        \<and> ''origin'' \<notin> set (splitLines out)
      \<longrightarrow> MainRemote g s = (Inr (hd (splitLines out)), s1))
   \<and> (isl (fst (MainRemote g s)) \<longleftrightarrow>
        isl (fst (execGit g [''remote''] s))
        \<or> splitLines (projr (fst (execGit g [''remote''] s))) = [])"
  by (auto simp: MainRemote_def Let_def known_fold splitLines_Nil_iff hd_conv_nth
        find_None_iff split: prod.splits sum.splits option.splits)

text \<open>
  Claim C10, witness: with the remotes \<^verbatim>\<open>fork\<close> and \<^verbatim>\<open>mine\<close>, in this order, the
  selected remote is \<^verbatim>\<open>fork\<close>.
\<close>

theorem MainRemote_fallback_witness:
  "MainRemote two_remotes_git env0 = (Inr ''fork'', env0\<lparr>cmds := [[''remote'']]\<rparr>)
   \<and> \<not> isl (fst (MainRemote two_remotes_git env0))"
  using MainRemote_fallback [of two_remotes_git env0]
  by (simp add: git_defs scripted_defs)

section \<open>The squash-merge detector\<close>

text \<open>
  Claim C4. \<open>isSquashMerged\<close> returns a truth value and no error. When the merge base,
  the tree, the dangling commit or the patch-equivalence check fails, it returns false and
  runs no further step; when all four succeed, it returns true exactly when the output of
  \<^verbatim>\<open>git cherry\<close> starts with \<^verbatim>\<open>-\<close>.
\<close>

theorem isSquashMerged_steps:
  "(\<forall>e s1. MergeBase g targetRef branchRef s = (Inl e, s1)
      \<longrightarrow> isSquashMerged g branchRef targetRef branchName s = (False, s1))
   \<and> (\<forall>ancestor s1 e s2.
        MergeBase g targetRef branchRef s = (Inr ancestor, s1)
        \<and> TreeHash g branchRef s1 = (Inl e, s2)
      \<longrightarrow> isSquashMerged g branchRef targetRef branchName s = (False, s2))
   \<and> (\<forall>ancestor s1 tree s2 e s3.
        MergeBase g targetRef branchRef s = (Inr ancestor, s1)
        \<and> TreeHash g branchRef s1 = (Inr tree, s2)
        \<and> CommitTree g tree ancestor (''temp squash-merge check for '' @ branchName) s2
            = (Inl e, s3)
      \<longrightarrow> isSquashMerged g branchRef targetRef branchName s = (False, s3))
   \<and> (\<forall>ancestor s1 tree s2 dangling s3 e s4.
        MergeBase g targetRef branchRef s = (Inr ancestor, s1)
        \<and> TreeHash g branchRef s1 = (Inr tree, s2)
        \<and> CommitTree g tree ancestor (''temp squash-merge check for '' @ branchName) s2
            = (Inr dangling, s3)
        \<and> Cherry g targetRef dangling s3 = (Inl e, s4)
      \<longrightarrow> isSquashMerged g branchRef targetRef branchName s = (False, s4))
   \<and> (\<forall>ancestor s1 tree s2 dangling s3 result s4.
        MergeBase g targetRef branchRef s = (Inr ancestor, s1)
        \<and> TreeHash g branchRef s1 = (Inr tree, s2)
        \<and> CommitTree g tree ancestor (''temp squash-merge check for '' @ branchName) s2
            = (Inr dangling, s3)
        \<and> Cherry g targetRef dangling s3 = (Inr result, s4)
      \<longrightarrow> isSquashMerged g branchRef targetRef branchName s = (prefix ''-'' result, s4))"
  by (simp add: isSquashMerged_def)

text \<open>
  Claim C4, witness: a probe that \<^verbatim>\<open>git cherry\<close> marks as applied gives true after
  four invocations; a backend on which the merge base fails gives false after one.
\<close>

theorem isSquashMerged_steps_witness:
  "isSquashMerged (gone_git False ''- 9999999eeee'' [])
       ''refs/heads/feature'' ''refs/remotes/origin/main'' ''feature'' env0
     = (True,
        env0\<lparr>cmds := [[''merge-base'', ''refs/remotes/origin/main'', ''refs/heads/feature''],
                       [''rev-parse'', ''refs/heads/feature^{tree}''],
                       [''commit-tree'', ''7777777dddd'', ''-p'', ''0000000cccc'', ''-m'',
                        ''temp squash-merge check for feature''],
                       [''cherry'', ''refs/remotes/origin/main'', ''9999999eeee'']]\<rparr>)
   \<and> isSquashMerged (scripted [])
         ''refs/heads/feature'' ''refs/remotes/origin/main'' ''feature'' env0
       = (False,
          env0\<lparr>cmds := [[''merge-base'', ''refs/remotes/origin/main'',
                          ''refs/heads/feature'']]\<rparr>)"
  using isSquashMerged_steps [of "gone_git False ''- 9999999eeee'' []"
          "''refs/remotes/origin/main''" "''refs/heads/feature''" env0 "''feature''"]
        isSquashMerged_steps [of "scripted []"
          "''refs/remotes/origin/main''" "''refs/heads/feature''" env0 "''feature''"]
  by (simp add: git_defs scripted_defs)

section \<open>Verdicts\<close>

text \<open>
  Claim C1. A branch whose tracking configuration points at the selected remote and whose
  upstream does not resolve leaves lines 104 to 120 with an empty \<^verbatim>\<open>remoteRef\<close> and
  \<^verbatim>\<open>gone\<close> set. The loop body then builds the range of the local branch and the default branch. When the
  local branch is an ancestor, the deletion block runs next, and the two invocations of
  the range are all that was issued, so the detector did not run. Otherwise the detector
  runs on the local reference, the default reference and the branch name; on true the
  deletion block runs, on false the not-merged warning is written and nothing else happens.
\<close>

theorem gone_verdict:
  assumes "v_branchRemotes v branch = Some (v_remote v)"
      and "UpstreamRef g branch s = (Inl e, s0)"
  shows "sync_counterpart g v branch s = (([], True), s0)
    \<and> sync_branch g v cur branch s = sync_gone g v cur branch s0
    \<and> (\<forall>r s1 s2.
         NewRange g (''refs/heads/'' @ branch) (v_defaultRef v) s0 = (Inr r, s1)
         \<and> IsAncestor g r s1 = (True, s2)
       \<longrightarrow> sync_gone g v cur branch s0 = sync_delete g v cur branch r s2
           \<and> issued s0 s2
               = [[''rev-parse'', ''--quiet'', ''refs/heads/'' @ branch, v_defaultRef v],
                  [''merge-base'', ''--is-ancestor'', A r, B r]])
    \<and> (\<forall>r s1 s2 s3.
         NewRange g (''refs/heads/'' @ branch) (v_defaultRef v) s0 = (Inr r, s1)
         \<and> IsAncestor g r s1 = (False, s2)
         \<and> isSquashMerged g (''refs/heads/'' @ branch) (v_defaultRef v) branch s2 = (True, s3)
       \<longrightarrow> sync_gone g v cur branch s0 = sync_delete g v cur branch r s3)
    \<and> (\<forall>r s1 s2 s3.
         NewRange g (''refs/heads/'' @ branch) (v_defaultRef v) s0 = (Inr r, s1)
         \<and> IsAncestor g r s1 = (False, s2)
         \<and> isSquashMerged g (''refs/heads/'' @ branch) (v_defaultRef v) branch s2 = (False, s3)
       \<longrightarrow> sync_gone g v cur branch s0
             = ((None, cur),
                put_stderr (not_merged_msg branch (v_remote v) (v_defaultBranch v)) s3))"
proof -
  have cp: "sync_counterpart g v branch s = (([], True), s0)"
    using assms by (simp add: sync_counterpart_def lookup_def)
  then have "sync_branch g v cur branch s = sync_gone g v cur branch s0"
    by (simp add: sync_branch_def)
  moreover have "issued s0 s2
      = [[''rev-parse'', ''--quiet'', ''refs/heads/'' @ branch, v_defaultRef v],
         [''merge-base'', ''--is-ancestor'', A r, B r]]"
    if "NewRange g (''refs/heads/'' @ branch) (v_defaultRef v) s0 = (Inr r, s1)"
       "IsAncestor g r s1 = (True, s2)" for r s1 s2
    using NewRange_env [OF that(1)] IsAncestor_env [OF that(2)] by (simp add: issued_def)
  ultimately show ?thesis
    using cp by (simp add: sync_gone_def)
qed

text \<open>
  Claim C1, witness: \<^verbatim>\<open>feature\<close> tracks \<^verbatim>\<open>origin\<close>, its upstream is gone, it is no
  ancestor of \<^verbatim>\<open>origin/main\<close>, and the probe is marked as applied. The branch is deleted.
\<close>

theorem gone_verdict_witness:
  "fst (sync_counterpart
          (gone_git False ''- 9999999eeee'' [([''branch'', ''-D'', ''feature''], True, [])])
          (vars0 [(''feature'', ''origin'')]) ''feature'' env0) = ([], True)
   \<and> sync_branch
         (gone_git False ''- 9999999eeee'' [([''branch'', ''-D'', ''feature''], True, [])])
         (vars0 [(''feature'', ''origin'')]) ''main'' ''feature'' env0
       = ((None, ''main''),
          \<lparr>world = (),
           cmds = [[''rev-parse'', ''--symbolic-full-name'', ''feature'' @ upstream_suffix],
                   [''rev-parse'', ''--quiet'', ''refs/heads/feature'',
                    ''refs/remotes/origin/main''],
                   [''merge-base'', ''--is-ancestor'', ''1111111aaaa'', ''2222222bbbb''],
                   [''merge-base'', ''refs/remotes/origin/main'', ''refs/heads/feature''],
                   [''rev-parse'', ''refs/heads/feature^{tree}''],
                   [''commit-tree'', ''7777777dddd'', ''-p'', ''0000000cccc'', ''-m'',
                    ''temp squash-merge check for feature''],
                   [''cherry'', ''refs/remotes/origin/main'', ''9999999eeee''],
                   [''branch'', ''-D'', ''feature'']],
           stdout = [''Deleted branch feature (was 1111111).'' @ [newline]],
           stderr = []\<rparr>)"
  using gone_verdict
    [of "vars0 [(''feature'', ''origin'')]" "''feature''"
        "gone_git False ''- 9999999eeee'' [([''branch'', ''-D'', ''feature''], True, [])]"
        env0 ExitError
        "env0\<lparr>cmds := [[''rev-parse'', ''--symbolic-full-name'', ''feature'' @ upstream_suffix]]\<rparr>"
        "''main''"]
  by (simp add: git_defs sync_defs scripted_defs)

text \<open>
  Claim C2. A branch with a counterpart (a non-empty \<^verbatim>\<open>remoteRef\<close> after lines 104 to
  120) whose range resolves is decided in this order. Identical identities: the iteration
  ends with nothing written and only the \<^verbatim>\<open>rev-parse\<close> of the range issued. Otherwise,
  local an ancestor of the counterpart: the fast-forward block runs. Otherwise: the
  unpushed warning is written, nothing goes to standard output, and only the two
  invocations of the range were issued.
\<close>

theorem resolved_verdict:
  assumes "sync_counterpart g v branch s = ((remoteRef, gone), s0)" and "remoteRef \<noteq> []"
      and "NewRange g (''refs/heads/'' @ branch) remoteRef s0 = (Inr r, s1)"
  shows "(A r = B r \<longrightarrow>
            sync_branch g v cur branch s = ((None, cur), s1)
            \<and> issued s0 s1 = [[''rev-parse'', ''--quiet'', ''refs/heads/'' @ branch, remoteRef]]
            \<and> stdout s1 = stdout s0 \<and> stderr s1 = stderr s0)
    \<and> (\<forall>s2. A r \<noteq> B r \<and> IsAncestor g r s1 = (True, s2) \<longrightarrow>
            sync_branch g v cur branch s
              = ((fst (sync_fast_forward g v cur branch remoteRef r s2), cur),
                 snd (sync_fast_forward g v cur branch remoteRef r s2)))
    \<and> (\<forall>s2. A r \<noteq> B r \<and> IsAncestor g r s1 = (False, s2) \<longrightarrow>
            sync_branch g v cur branch s = ((None, cur), put_stderr (unpushed_msg branch) s2)
            \<and> issued s0 s2
                = [[''rev-parse'', ''--quiet'', ''refs/heads/'' @ branch, remoteRef],
                   [''merge-base'', ''--is-ancestor'', A r, B r]]
            \<and> stdout s2 = stdout s0)"
proof -
  have body: "sync_branch g v cur branch s
      = ((fst (sync_compare g v cur branch remoteRef s0), cur),
         snd (sync_compare g v cur branch remoteRef s0))"
    using assms(1,2) by (simp add: sync_branch_def split: prod.splits)
  note nr = NewRange_env [OF assms(3)]
  have "issued s0 s2 = [[''rev-parse'', ''--quiet'', ''refs/heads/'' @ branch, remoteRef],
                        [''merge-base'', ''--is-ancestor'', A r, B r]]
        \<and> stdout s2 = stdout s0"
    if "IsAncestor g r s1 = (b, s2)" for b s2
    using nr IsAncestor_env [OF that] by (simp add: issued_def)
  then show ?thesis
    using nr assms(3) by (auto simp: body sync_compare_def IsIdentical_def issued_def)
qed

text \<open>
  Claim C2, witness: the checked-out \<^verbatim>\<open>main\<close> is one commit behind \<^verbatim>\<open>origin/main\<close>
  and is fast-forwarded.
\<close>

theorem resolved_verdict_witness:
  "fst (sync_counterpart (behind_git True) (vars0 [(''main'', ''origin'')]) ''main'' env0)
     = (''refs/remotes/origin/main'', False)
   \<and> sync_branch (behind_git True) (vars0 [(''main'', ''origin'')]) ''main'' ''main'' env0
       = ((None, ''main''),
          \<lparr>world = (),
           cmds = [[''rev-parse'', ''--symbolic-full-name'', ''main'' @ upstream_suffix],
                   [''rev-parse'', ''--quiet'', ''refs/heads/main'',
                    ''refs/remotes/origin/main''],
                   [''merge-base'', ''--is-ancestor'', ''1111111aaaa'', ''2222222bbbb''],
                   [''merge'', ''--ff-only'', ''--quiet'', ''refs/remotes/origin/main'']],
           stdout = [''Updated branch main (was 1111111).'' @ [newline]],
           stderr = []\<rparr>)"
  using resolved_verdict
    [of "behind_git True" "vars0 [(''main'', ''origin'')]" "''main''" env0
        "''refs/remotes/origin/main''" False
        "env0\<lparr>cmds := [[''rev-parse'', ''--symbolic-full-name'', ''main'' @ upstream_suffix]]\<rparr>"
        "\<lparr>A = ''1111111aaaa'', B = ''2222222bbbb''\<rparr>"
        "env0\<lparr>cmds := [[''rev-parse'', ''--symbolic-full-name'', ''main'' @ upstream_suffix],
                        [''rev-parse'', ''--quiet'', ''refs/heads/main'',
                         ''refs/remotes/origin/main'']]\<rparr>"
        "''main''"]
  by (simp add: git_defs sync_defs scripted_defs)

section \<open>Mutations\<close>

lemma fast_forward_other:
  assumes "branch \<noteq> cur"
  shows "issued s (snd (sync_fast_forward g v cur branch remoteRef r s))
           = [[''update-ref'', ''refs/heads/'' @ branch, remoteRef]]"
proof (cases "UpdateRef g (''refs/heads/'' @ branch) remoteRef s")
  case (Pair e s1)
  from UpdateRef_env [OF Pair] show ?thesis
    using assms Pair
    by (simp add: sync_fast_forward_def issued_def split: option.splits)
qed

lemma fast_forward_current:
  "issued s (snd (sync_fast_forward g v branch branch remoteRef r s))
     = [[''merge'', ''--ff-only'', ''--quiet'', remoteRef]]"
proof (cases "MergeFFOnly g remoteRef s")
  case (Pair e s1)
  from MergeFFOnly_env [OF Pair] show ?thesis
    using Pair
    by (simp add: sync_fast_forward_def issued_def split: option.splits)
qed

lemma fast_forward_current_fails:
  assumes "MergeFFOnly g remoteRef s = (Some e, s1)"
  shows "sync_fast_forward g v branch branch remoteRef r s
           = (Some (Wrapf (''failed to fast-forward '' @ branch @ '': '') e), s1)
         \<and> stdout s1 = stdout s"
  using assms MergeFFOnly_env [OF assms] by (simp add: sync_fast_forward_def)

lemma delete_current:
  "(\<forall>e s1. Checkout g (v_defaultBranch v) s = (Some e, s1) \<longrightarrow>
       sync_delete g v branch branch r s
         = ((Some (Wrapf (''failed to checkout '' @ v_defaultBranch v @ '': '') e), branch), s1)
       \<and> issued s s1 = [[''checkout'', ''--quiet'', v_defaultBranch v]])
   \<and> (\<forall>s1. Checkout g (v_defaultBranch v) s = (None, s1) \<longrightarrow>
       issued s (snd (sync_delete g v branch branch r s))
         = [[''checkout'', ''--quiet'', v_defaultBranch v], [''branch'', ''-D'', branch]]
       \<and> snd (fst (sync_delete g v branch branch r s)) = v_defaultBranch v)"
proof -
  have "issued s (snd (sync_delete g v branch branch r s))
         = [[''checkout'', ''--quiet'', v_defaultBranch v], [''branch'', ''-D'', branch]]
       \<and> snd (fst (sync_delete g v branch branch r s)) = v_defaultBranch v"
    if c: "Checkout g (v_defaultBranch v) s = (None, s1)" for s1
  proof (cases "DeleteBranch g branch s1")
    case (Pair e s2)
    from Checkout_env [OF c] DeleteBranch_env [OF Pair] show ?thesis
      using c Pair by (simp add: sync_delete_def issued_def split: option.splits)
  qed
  moreover have "sync_delete g v branch branch r s
         = ((Some (Wrapf (''failed to checkout '' @ v_defaultBranch v @ '': '') e), branch), s1)
       \<and> issued s s1 = [[''checkout'', ''--quiet'', v_defaultBranch v]]"
    if c: "Checkout g (v_defaultBranch v) s = (Some e, s1)" for e s1
    using c Checkout_env [OF c] by (simp add: sync_delete_def issued_def)
  ultimately show ?thesis by blast
qed

text \<open>
  Claim C5. The fast-forward block issues exactly one invocation: \<^verbatim>\<open>update-ref\<close> of the
  local reference when the branch is not the checked-out one, and
  \<^verbatim>\<open>merge --ff-only\<close> when it is; when that merge fails the block returns the wrapped
  error and writes nothing. The deletion block, on the checked-out branch, first issues
  \<^verbatim>\<open>checkout\<close> of the default branch: when it fails nothing else is issued, and when it
  succeeds \<^verbatim>\<open>branch -D\<close> follows and the default branch is the checked-out one from then
  on.
\<close>

theorem mutation_dispatch:
  "(branch \<noteq> cur \<longrightarrow>
      issued s (snd (sync_fast_forward g v cur branch remoteRef r s))
        = [[''update-ref'', ''refs/heads/'' @ branch, remoteRef]])
   \<and> issued s (snd (sync_fast_forward g v branch branch remoteRef r s))
        = [[''merge'', ''--ff-only'', ''--quiet'', remoteRef]]
   \<and> (\<forall>e s1. MergeFFOnly g remoteRef s = (Some e, s1) \<longrightarrow>
        sync_fast_forward g v branch branch remoteRef r s
          = (Some (Wrapf (''failed to fast-forward '' @ branch @ '': '') e), s1)
        \<and> stdout s1 = stdout s)
   \<and> (\<forall>e s1. Checkout g (v_defaultBranch v) s = (Some e, s1) \<longrightarrow>
        sync_delete g v branch branch r s
          = ((Some (Wrapf (''failed to checkout '' @ v_defaultBranch v @ '': '') e), branch), s1)
        \<and> issued s s1 = [[''checkout'', ''--quiet'', v_defaultBranch v]])
   \<and> (\<forall>s1. Checkout g (v_defaultBranch v) s = (None, s1) \<longrightarrow>
        issued s (snd (sync_delete g v branch branch r s))
          = [[''checkout'', ''--quiet'', v_defaultBranch v], [''branch'', ''-D'', branch]]
        \<and> snd (fst (sync_delete g v branch branch r s)) = v_defaultBranch v)"
  using fast_forward_other [of branch cur s g v remoteRef r]
        fast_forward_current [of s g v branch remoteRef r]
        fast_forward_current_fails [of g remoteRef s _ _ v branch r]
        delete_current [of g v s branch r]
  by blast

text \<open>
  Claim C5, witness: \<^verbatim>\<open>main\<close> is fast-forwarded by \<^verbatim>\<open>update-ref\<close> while
  \<^verbatim>\<open>feature\<close> is checked out and by \<^verbatim>\<open>merge --ff-only\<close> while it is checked out
  itself; the checked-out \<^verbatim>\<open>feature\<close> is deleted after a switch to \<^verbatim>\<open>main\<close>.
\<close>

theorem mutation_dispatch_witness:
  "issued env0 (snd (sync_fast_forward (behind_git True) (vars0 []) ''feature'' ''main''
          ''refs/remotes/origin/main'' \<lparr>A = ''1111111aaaa'', B = ''2222222bbbb''\<rparr> env0))
     = [[''update-ref'', ''refs/heads/main'', ''refs/remotes/origin/main'']]
   \<and> issued env0 (snd (sync_fast_forward (behind_git True) (vars0 []) ''main'' ''main''
          ''refs/remotes/origin/main'' \<lparr>A = ''1111111aaaa'', B = ''2222222bbbb''\<rparr> env0))
     = [[''merge'', ''--ff-only'', ''--quiet'', ''refs/remotes/origin/main'']]
   \<and> sync_delete
        (scripted [([''checkout'', ''--quiet'', ''main''], True, []),
                   ([''branch'', ''-D'', ''feature''], True, [])])
        (vars0 []) ''feature'' ''feature'' \<lparr>A = ''1111111aaaa'', B = ''2222222bbbb''\<rparr> env0
     = ((None, ''main''),
        \<lparr>world = (),
         cmds = [[''checkout'', ''--quiet'', ''main''], [''branch'', ''-D'', ''feature'']],
         stdout = [''Deleted branch feature (was 1111111).'' @ [newline]], stderr = []\<rparr>)"
  using mutation_dispatch [of "''main''" "''feature''" env0 "behind_git True" "vars0 []"
          "''refs/remotes/origin/main''" "\<lparr>A = ''1111111aaaa'', B = ''2222222bbbb''\<rparr>"]
        mutation_dispatch [of "''feature''" "''feature''" env0
          "scripted [([''checkout'', ''--quiet'', ''main''], True, []),
                     ([''branch'', ''-D'', ''feature''], True, [])]"
          "vars0 []" "''refs/remotes/origin/main''"
          "\<lparr>A = ''1111111aaaa'', B = ''2222222bbbb''\<rparr>"]
  by (simp add: git_defs sync_defs scripted_defs issued_def)

section \<open>Counterpart resolution\<close>

text \<open>
  Claim C3, counterexample. \<^verbatim>\<open>feature\<close> has explicit tracking that points at the remote
  \<^verbatim>\<open>fork\<close>; the selected remote is \<^verbatim>\<open>origin\<close>, which has a branch of the same name.
  By the rules of the claim the branch is absent and skipped. The loop body compares it
  with \<^verbatim>\<open>refs/remotes/origin/feature\<close> and writes the unpushed warning.
\<close>

theorem tracking_other_remote_not_skipped:
  "spec_counterpart fork_git (vars0 [(''feature'', ''fork'')]) ''feature'' env0
     = CounterpartAbsent
   \<and> classified (fst (sync_counterpart fork_git (vars0 [(''feature'', ''fork'')])
                         ''feature'' env0))
     = CounterpartResolved ''refs/remotes/origin/feature''
   \<and> stderr (snd (sync_branch fork_git (vars0 [(''feature'', ''fork'')]) ''main''
                     ''feature'' env0))
     = [unpushed_msg ''feature'']"
  by (simp add: git_defs sync_defs scripted_defs spec_counterpart_def classified_def)

text \<open>
  Claim C3, amended. For a selected remote with a non-empty name and an upstream that, when
  it resolves, is a non-empty reference name: a branch whose tracking configuration points
  at the selected remote is resolved with its upstream, or gone when the upstream does not
  resolve; every other branch, whether it has no tracking configuration or one that points
  at another remote, is resolved with the reference of the same name on the selected
  remote when that exists, and is absent otherwise. An absent branch ends the iteration
  with nothing written and only the \<^verbatim>\<open>show-ref\<close> probe issued.
\<close>

theorem counterpart_resolution:
  assumes "v_remote v \<noteq> []"
      and "\<forall>upstream s1. UpstreamRef g branch s = (Inr upstream, s1) \<longrightarrow> upstream \<noteq> []"
  shows "classified (fst (sync_counterpart g v branch s)) = amended_counterpart g v branch s
    \<and> (classified (fst (sync_counterpart g v branch s)) = CounterpartAbsent \<longrightarrow>
         sync_branch g v cur branch s = ((None, cur), snd (sync_counterpart g v branch s))
         \<and> stdout (snd (sync_counterpart g v branch s)) = stdout s
         \<and> stderr (snd (sync_counterpart g v branch s)) = stderr s
         \<and> issued s (snd (sync_counterpart g v branch s))
             = [[''show-ref'', ''--verify'', ''--quiet'',
                 ''refs/remotes/'' @ v_remote v @ ''/'' @ branch]])"
proof -
  let ?ref = "''refs/remotes/'' @ v_remote v @ ''/'' @ branch"
  show ?thesis
  proof (cases "v_branchRemotes v branch = Some (v_remote v)")
    case True
    then have l: "lookup (v_branchRemotes v) branch = v_remote v"
      by (simp add: lookup_def)
    obtain x s1 where u: "UpstreamRef g branch s = (x, s1)" by (metis surj_pair)
    show ?thesis
    proof (cases x)
      case (Inl e)
      with True l u show ?thesis
        by (simp add: sync_counterpart_def classified_def amended_counterpart_def)
    next
      case (Inr upstream)
      with assms(2) u have "upstream \<noteq> []" by simp
      with True l u Inr show ?thesis
        by (simp add: sync_counterpart_def classified_def amended_counterpart_def)
    qed
  next
    case False
    with assms(1) have l: "lookup (v_branchRemotes v) branch \<noteq> v_remote v"
      by (simp add: lookup_eq)
    obtain b s1 where h: "HasRef g ?ref s = (b, s1)" by (metis surj_pair)
    from h have env: "cmds s1 = cmds s @ [[''show-ref'', ''--verify'', ''--quiet'', ?ref]]
        \<and> stdout s1 = stdout s \<and> stderr s1 = stderr s"
      by (auto simp: HasRef_def dest: Run_env)
    from False l h env show ?thesis
      by (cases b)
         (simp_all add: sync_counterpart_def classified_def amended_counterpart_def
            sync_branch_def issued_def)
  qed
qed

text \<open>
  Claim C3, witness: \<^verbatim>\<open>main\<close> tracks \<^verbatim>\<open>origin\<close> and resolves to its upstream;
  \<^verbatim>\<open>feature\<close> tracks \<^verbatim>\<open>fork\<close> and is matched by name; \<^verbatim>\<open>topic\<close> has no
  counterpart and is skipped.
\<close>

theorem counterpart_resolution_witness:
  "classified (fst (sync_counterpart (behind_git True) (vars0 [(''main'', ''origin'')])
                      ''main'' env0))
     = CounterpartResolved ''refs/remotes/origin/main''
   \<and> classified (fst (sync_counterpart fork_git (vars0 [(''feature'', ''fork'')])
                        ''feature'' env0))
     = CounterpartResolved ''refs/remotes/origin/feature''
   \<and> sync_branch fork_git (vars0 [(''feature'', ''fork'')]) ''main'' ''topic'' env0
     = ((None, ''main''),
        env0\<lparr>cmds := [[''show-ref'', ''--verify'', ''--quiet'',
                        ''refs/remotes/origin/topic'']]\<rparr>)"
  using counterpart_resolution [of "vars0 [(''main'', ''origin'')]" "behind_git True"
          "''main''" env0 "''main''"]
        counterpart_resolution [of "vars0 [(''feature'', ''fork'')]" fork_git
          "''feature''" env0 "''main''"]
        counterpart_resolution [of "vars0 [(''feature'', ''fork'')]" fork_git
          "''topic''" env0 "''main''"]
  by (simp add: git_defs sync_defs scripted_defs classified_def amended_counterpart_def)

section \<open>Failures\<close>

text \<open>
  Claim C6, counterexample. The checked-out \<^verbatim>\<open>feature\<close> is to be deleted and the
  switch to \<^verbatim>\<open>main\<close> fails. The run ends with the error
  \<^verbatim>\<open>failed to checkout main: ...\<close>, whose text does not contain the name of the branch
  that was being processed.
\<close>

theorem checkout_error_names_default_branch:
  "fst (sync_loop (gone_git True [] []) (vars0 [(''feature'', ''origin'')]) ''feature''
         [''feature'', ''other''] env0)
     = Some (Wrapf ''failed to checkout main: '' ExitError)
   \<and> \<not> sublist ''feature'' ''failed to checkout main: ''"
  by (simp add: git_defs sync_defs scripted_defs sublist_code prefix_code)

text \<open>
  Claim C6, amended. Let the loop be at \<open>branch\<close>, with the remaining branches \<open>rest\<close>.
  When the range of the branch and its counterpart, or of the branch and the default
  branch, cannot be built, the run returns the error of the range as it is, in the
  environment of the failed invocation: nothing of \<open>rest\<close> is evaluated. When the
  fast-forward merge, the reference update or the deletion fails, the run ends in the same
  way with the error wrapped in a text that names the branch; when the switch of the
  checkout fails, the text names the default branch, which was to be checked out.
\<close>

theorem failures_abort_run:
  assumes cp: "sync_counterpart g v branch s = ((remoteRef, gone), s0)"
  shows
   "(\<forall>e s1. remoteRef \<noteq> []
        \<and> NewRange g (''refs/heads/'' @ branch) remoteRef s0 = (Inl e, s1)
      \<longrightarrow> sync_loop g v cur (branch # rest) s = (Some e, s1))
    \<and> (\<forall>e s1. remoteRef = [] \<and> gone
        \<and> NewRange g (''refs/heads/'' @ branch) (v_defaultRef v) s0 = (Inl e, s1)
      \<longrightarrow> sync_loop g v cur (branch # rest) s = (Some e, s1))
    \<and> (\<forall>r s2 e s3. remoteRef \<noteq> []
        \<and> sync_compare g v cur branch remoteRef s0
            = sync_fast_forward g v cur branch remoteRef r s2
        \<and> branch = cur \<and> MergeFFOnly g remoteRef s2 = (Some e, s3)
      \<longrightarrow> sync_loop g v cur (branch # rest) s
            = (Some (Wrapf (''failed to fast-forward '' @ branch @ '': '') e), s3))
    \<and> (\<forall>r s2 e s3. remoteRef \<noteq> []
        \<and> sync_compare g v cur branch remoteRef s0
            = sync_fast_forward g v cur branch remoteRef r s2
        \<and> branch \<noteq> cur \<and> UpdateRef g (''refs/heads/'' @ branch) remoteRef s2 = (Some e, s3)
      \<longrightarrow> sync_loop g v cur (branch # rest) s
            = (Some (Wrapf (''failed to update '' @ branch @ '': '') e), s3))
    \<and> (\<forall>r s3 e s4. remoteRef = [] \<and> gone
        \<and> sync_gone g v cur branch s0 = sync_delete g v cur branch r s3
        \<and> branch = cur \<and> Checkout g (v_defaultBranch v) s3 = (Some e, s4)
      \<longrightarrow> sync_loop g v cur (branch # rest) s
            = (Some (Wrapf (''failed to checkout '' @ v_defaultBranch v @ '': '') e), s4))
    \<and> (\<forall>r s3 s4 e s5. remoteRef = [] \<and> gone
        \<and> sync_gone g v cur branch s0 = sync_delete g v cur branch r s3
        \<and> (branch = cur \<and> Checkout g (v_defaultBranch v) s3 = (None, s4)
            \<or> branch \<noteq> cur \<and> s4 = s3)
        \<and> DeleteBranch g branch s4 = (Some e, s5)
      \<longrightarrow> sync_loop g v cur (branch # rest) s
            = (Some (Wrapf (''failed to delete '' @ branch @ '': '') e), s5))"
proof -
  have res: "sync_branch g v cur branch s
      = ((fst (sync_compare g v cur branch remoteRef s0), cur),
         snd (sync_compare g v cur branch remoteRef s0))" if "remoteRef \<noteq> []"
    using cp that by (simp add: sync_branch_def split: prod.splits)
  have gon: "sync_branch g v cur branch s = sync_gone g v cur branch s0"
    if "remoteRef = []" "gone"
    using cp that by (simp add: sync_branch_def)
  have 1: "sync_loop g v cur (branch # rest) s = (Some e, s1)"
    if "remoteRef \<noteq> []" "NewRange g (''refs/heads/'' @ branch) remoteRef s0 = (Inl e, s1)"
    for e s1
    using that res by (simp add: sync_compare_def)
  have 2: "sync_loop g v cur (branch # rest) s = (Some e, s1)"
    if "remoteRef = []" "gone"
       "NewRange g (''refs/heads/'' @ branch) (v_defaultRef v) s0 = (Inl e, s1)"
    for e s1
    using that gon by (simp add: sync_gone_def)
  have 3: "sync_loop g v cur (branch # rest) s
            = (Some (Wrapf (''failed to fast-forward '' @ branch @ '': '') e), s3)"
    if "remoteRef \<noteq> []"
       "sync_compare g v cur branch remoteRef s0
            = sync_fast_forward g v cur branch remoteRef r s2"
       "branch = cur" "MergeFFOnly g remoteRef s2 = (Some e, s3)"
    for r s2 e s3
    using that res by (simp add: sync_fast_forward_def)
  have 4: "sync_loop g v cur (branch # rest) s
            = (Some (Wrapf (''failed to update '' @ branch @ '': '') e), s3)"
    if "remoteRef \<noteq> []"
       "sync_compare g v cur branch remoteRef s0
            = sync_fast_forward g v cur branch remoteRef r s2"
       "branch \<noteq> cur" "UpdateRef g (''refs/heads/'' @ branch) remoteRef s2 = (Some e, s3)"
    for r s2 e s3
    using that res by (simp add: sync_fast_forward_def)
  have 5: "sync_loop g v cur (branch # rest) s
            = (Some (Wrapf (''failed to checkout '' @ v_defaultBranch v @ '': '') e), s4)"
    if "remoteRef = []" "gone"
       "sync_gone g v cur branch s0 = sync_delete g v cur branch r s3"
       "branch = cur" "Checkout g (v_defaultBranch v) s3 = (Some e, s4)"
    for r s3 e s4
    using that gon by (simp add: sync_delete_def)
  have 6: "sync_loop g v cur (branch # rest) s
            = (Some (Wrapf (''failed to delete '' @ branch @ '': '') e), s5)"
    if "remoteRef = []" "gone"
       "sync_gone g v cur branch s0 = sync_delete g v cur branch r s3"
       "branch = cur \<and> Checkout g (v_defaultBranch v) s3 = (None, s4)
            \<or> branch \<noteq> cur \<and> s4 = s3"
       "DeleteBranch g branch s4 = (Some e, s5)"
    for r s3 s4 e s5
    using that gon by (auto simp: sync_delete_def)
  show ?thesis
    by (intro conjI allI impI; elim conjE) (erule (1) 1 2 3 4 5 6; assumption)+
qed

text \<open>
  Claim C6, witness: the checked-out \<^verbatim>\<open>feature\<close> is to be deleted, the switch to
  \<^verbatim>\<open>main\<close> succeeds and the deletion fails. The run ends there, and \<^verbatim>\<open>other\<close> is
  not evaluated.
\<close>

theorem failures_abort_run_witness:
  "sync_loop (gone_git True [] [([''checkout'', ''--quiet'', ''main''], True, [])])
       (vars0 [(''feature'', ''origin'')]) ''feature'' [''feature'', ''other''] env0
     = (Some (Wrapf ''failed to delete feature: '' ExitError),
        \<lparr>world = (),
         cmds = [[''rev-parse'', ''--symbolic-full-name'', ''feature'' @ upstream_suffix],
                 [''rev-parse'', ''--quiet'', ''refs/heads/feature'',
                  ''refs/remotes/origin/main''],
                 [''merge-base'', ''--is-ancestor'', ''1111111aaaa'', ''2222222bbbb''],
                 [''checkout'', ''--quiet'', ''main''],
                 [''branch'', ''-D'', ''feature'']],
         stdout = [], stderr = []\<rparr>)"
  using failures_abort_run
    [of "gone_git True [] [([''checkout'', ''--quiet'', ''main''], True, [])]"
        "vars0 [(''feature'', ''origin'')]" "''feature''" env0 "[]" True
        "env0\<lparr>cmds := [[''rev-parse'', ''--symbolic-full-name'',
                         ''feature'' @ upstream_suffix]]\<rparr>"
        "''feature''" "[''other'']"]
  by (simp add: git_defs sync_defs scripted_defs)

section \<open>Detached HEAD\<close>

text \<open>Runs that never act on the checkout.\<close>

lemma ext_refl [simp]: "extends_quietly s s"
  by (simp add: extends_quietly_def)

lemma ext_trans: "extends_quietly s s1 \<Longrightarrow> extends_quietly s1 s2 \<Longrightarrow> extends_quietly s s2"
  by (auto simp: extends_quietly_def)

lemma ext_step: "cmds s' = cmds s @ [c] \<Longrightarrow> \<not> touches_checkout c \<Longrightarrow> extends_quietly s s'"
  by (simp add: extends_quietly_def)

lemma ext_put [simp]: "extends_quietly s (put_stdout l s)" "extends_quietly s (put_stderr l s)"
  by (simp_all add: extends_quietly_def)

lemma ext_execGit:
  "execGit g args s = (r, s') \<Longrightarrow> \<not> touches_checkout args \<Longrightarrow> extends_quietly s s'"
  by (auto dest!: execGit_env intro: ext_step)

lemma ext_Run:
  "Run g args s = (r, s') \<Longrightarrow> \<not> touches_checkout args \<Longrightarrow> extends_quietly s s'"
  by (auto dest!: Run_env intro: ext_step)

lemma ext_execErr:
  "execErr g args s = (r, s') \<Longrightarrow> \<not> touches_checkout args \<Longrightarrow> extends_quietly s s'"
  by (auto dest!: execErr_env intro: ext_step)

lemma ext_Spawn:
  "Spawn g args s = (r, s') \<Longrightarrow> \<not> touches_checkout args \<Longrightarrow> extends_quietly s s'"
  by (auto dest!: Spawn_env intro: ext_step)

lemma ext_counterpart: "sync_counterpart g v branch s = (r, s') \<Longrightarrow> extends_quietly s s'"
  by (auto simp: sync_counterpart_def UpstreamRef_def HasRef_def Let_def touches_checkout_def
           split: if_splits prod.splits sum.splits bool.splits
           dest!: ext_execGit ext_Run)

lemma ext_NewRange: "NewRange g a b s = (r, s') \<Longrightarrow> extends_quietly s s'"
  by (auto simp: touches_checkout_def dest!: NewRange_env intro: ext_step)

lemma ext_IsAncestor: "IsAncestor g r s = (b, s') \<Longrightarrow> extends_quietly s s'"
  by (auto simp: touches_checkout_def dest!: IsAncestor_env intro: ext_step)

lemma ext_isSquashMerged: "isSquashMerged g a b n s = (r, s') \<Longrightarrow> extends_quietly s s'"
  unfolding isSquashMerged_def MergeBase_def TreeHash_def CommitTree_def Cherry_def
  by (auto simp: touches_checkout_def split: prod.splits sum.splits
           dest!: ext_execGit intro: ext_trans)

lemma ext_fast_forward:
  "branch \<noteq> cur \<Longrightarrow> sync_fast_forward g v cur branch remoteRef r s = (e, s') \<Longrightarrow> extends_quietly s s'"
  by (auto simp: sync_fast_forward_def UpdateRef_def touches_checkout_def
           split: prod.splits option.splits dest!: ext_execErr intro: ext_trans)

lemma ext_delete:
  "branch \<noteq> cur \<Longrightarrow> sync_delete g v cur branch r s = ((e, cur'), s') \<Longrightarrow> extends_quietly s s' \<and> cur' = cur"
  by (auto simp: sync_delete_def DeleteBranch_def touches_checkout_def
           split: prod.splits option.splits dest!: ext_execErr intro: ext_trans)

lemma ext_compare:
  assumes "branch \<noteq> cur" and eq: "sync_compare g v cur branch remoteRef s = (e, s')"
  shows "extends_quietly s s'"
proof (cases "NewRange g (''refs/heads/'' @ branch) remoteRef s")
  case (Pair x s1)
  then have 1: "extends_quietly s s1" by (rule ext_NewRange)
  show ?thesis
  proof (cases x)
    case (Inl err)
    with eq Pair 1 show ?thesis by (simp add: sync_compare_def)
  next
    case (Inr r)
    obtain a s2 where anc: "IsAncestor g r s1 = (a, s2)" by (metis surj_pair)
    then have "extends_quietly s1 s2" by (rule ext_IsAncestor)
    with 1 have 2: "extends_quietly s s2" by (rule ext_trans)
    show ?thesis
    proof (cases "IsIdentical r")
      case True
      with eq Pair Inr 1 show ?thesis by (simp add: sync_compare_def)
    next
      case False
      show ?thesis
      proof (cases a)
        case True
        with eq Pair Inr anc False
        have "sync_fast_forward g v cur branch remoteRef r s2 = (e, s')"
          by (simp add: sync_compare_def)
        from ext_fast_forward [OF assms(1) this] 2 show ?thesis by (metis ext_trans)
      next
        case a: False
        with eq Pair Inr anc False have "s' = put_stderr (unpushed_msg branch) s2"
          by (simp add: sync_compare_def)
        with 2 show ?thesis by (simp add: extends_quietly_def)
      qed
    qed
  qed
qed

lemma ext_gone:
  assumes "branch \<noteq> cur" and eq: "sync_gone g v cur branch s = ((e, cur'), s')"
  shows "extends_quietly s s' \<and> cur' = cur"
proof (cases "NewRange g (''refs/heads/'' @ branch) (v_defaultRef v) s")
  case (Pair x s1)
  then have 1: "extends_quietly s s1" by (rule ext_NewRange)
  show ?thesis
  proof (cases x)
    case (Inl err)
    with eq Pair 1 show ?thesis by (auto simp: sync_gone_def)
  next
    case (Inr r)
    obtain a s2 where anc: "IsAncestor g r s1 = (a, s2)" by (metis surj_pair)
    then have "extends_quietly s1 s2" by (rule ext_IsAncestor)
    with 1 have 2: "extends_quietly s s2" by (rule ext_trans)
    show ?thesis
    proof (cases a)
      case True
      with eq Pair Inr anc
      have "sync_delete g v cur branch r s2 = ((e, cur'), s')"
        by (simp add: sync_gone_def)
      from ext_delete [OF assms(1) this] 2 show ?thesis by (metis ext_trans)
    next
      case a: False
      obtain d s3 where sd:
        "isSquashMerged g (''refs/heads/'' @ branch) (v_defaultRef v) branch s2 = (d, s3)"
        by (metis surj_pair)
      then have "extends_quietly s2 s3" by (rule ext_isSquashMerged)
      with 2 have 3: "extends_quietly s s3" by (rule ext_trans)
      show ?thesis
      proof (cases d)
        case True
        with eq Pair Inr anc sd a
        have "sync_delete g v cur branch r s3 = ((e, cur'), s')"
          by (simp add: sync_gone_def)
        from ext_delete [OF assms(1) this] 3 show ?thesis by (metis ext_trans)
      next
        case False
        with eq Pair Inr anc sd a
        have "s' = put_stderr (not_merged_msg branch (v_remote v) (v_defaultBranch v)) s3"
          and "cur' = cur"
          by (simp_all add: sync_gone_def)
        with 3 show ?thesis by (simp add: extends_quietly_def)
      qed
    qed
  qed
qed

lemma ext_branch:
  assumes "branch \<noteq> cur" and eq: "sync_branch g v cur branch s = ((e, cur'), s')"
  shows "extends_quietly s s' \<and> cur' = cur"
proof -
  obtain remoteRef gone s1 where cp: "sync_counterpart g v branch s = ((remoteRef, gone), s1)"
    by (metis surj_pair)
  then have 1: "extends_quietly s s1" by (rule ext_counterpart)
  consider "remoteRef \<noteq> []" | "remoteRef = []" "gone" | "remoteRef = []" "\<not> gone" by blast
  then show ?thesis
  proof cases
    case 1
    with eq cp have "sync_compare g v cur branch remoteRef s1 = (e, s')" and "cur' = cur"
      by (simp_all add: sync_branch_def split: prod.splits)
    with ext_compare [OF assms(1) this(1)] \<open>extends_quietly s s1\<close> show ?thesis by (metis ext_trans)
  next
    case 2
    with eq cp have "sync_gone g v cur branch s1 = ((e, cur'), s')"
      by (simp add: sync_branch_def)
    with ext_gone [OF assms(1) this] \<open>extends_quietly s s1\<close> show ?thesis by (metis ext_trans)
  next
    case 3
    with eq cp \<open>extends_quietly s s1\<close> show ?thesis by (simp add: sync_branch_def)
  qed
qed

lemma ext_loop:
  "cur \<notin> set branches \<Longrightarrow> sync_loop g v cur branches s = (e, s') \<Longrightarrow> extends_quietly s s'"
proof (induction branches arbitrary: s)
  case Nil
  then show ?case by simp
next
  case (Cons b bs)
  obtain e1 c1 s1 where step: "sync_branch g v cur b s = ((e1, c1), s1)"
    by (metis surj_pair)
  from Cons.prems(1) have "b \<noteq> cur" by auto
  from ext_branch [OF this step] have 1: "extends_quietly s s1" and c1: "c1 = cur" by simp_all
  show ?case
  proof (cases e1)
    case None
    with Cons.prems step c1 have "sync_loop g v cur bs s1 = (e, s')" by simp
    with Cons.IH Cons.prems(1) have "extends_quietly s1 s'" by simp
    with 1 show ?thesis by (rule ext_trans)
  next
    case (Some x)
    with Cons.prems step have "s' = s1" by simp
    with 1 show ?thesis by simp
  qed
qed

lemma ext_MainRemote: "MainRemote g s = (r, s') \<Longrightarrow> extends_quietly s s'"
  by (auto simp: MainRemote_def Let_def touches_checkout_def
           split: prod.splits sum.splits if_splits option.splits dest: ext_execGit)

lemma ext_HasRef: "HasRef g ref s = (r, s') \<Longrightarrow> extends_quietly s s'"
  by (auto simp: HasRef_def touches_checkout_def dest: ext_Run)

lemma ext_DefaultBranch:
  assumes "DefaultBranch g remote s = (r, s')"
  shows "extends_quietly s s'"
proof (cases "execGit g [''symbolic-ref'', ''--quiet'', ''refs/remotes/'' @ remote @ ''/HEAD''] s")
  case (Pair x s1)
  then have 1: "extends_quietly s s1" by (rule ext_execGit) (simp add: touches_checkout_def)
  show ?thesis
  proof (cases x)
    case (Inr out)
    with assms Pair 1 show ?thesis by (simp add: DefaultBranch_def)
  next
    case (Inl e)
    obtain b2 s2 where h2: "HasRef g (''refs/remotes/'' @ remote @ ''/main'') s1 = (b2, s2)"
      by (metis surj_pair)
    then have "extends_quietly s1 s2" by (rule ext_HasRef)
    with 1 have 2: "extends_quietly s s2" by (rule ext_trans)
    obtain b3 s3 where h3: "HasRef g (''refs/remotes/'' @ remote @ ''/master'') s2 = (b3, s3)"
      by (metis surj_pair)
    then have "extends_quietly s2 s3" by (rule ext_HasRef)
    with 2 have 3: "extends_quietly s s3" by (rule ext_trans)
    from assms Pair Inl h2 h3 have "s' = s2 \<or> s' = s3"
      by (cases b2; cases b3) (simp_all add: DefaultBranch_def)
    with 2 3 show ?thesis by auto
  qed
qed

lemma ext_CurrentBranch: "CurrentBranch g s = (r, s') \<Longrightarrow> extends_quietly s s'"
  by (auto simp: CurrentBranch_def touches_checkout_def
           split: prod.splits sum.splits dest: ext_execGit)

lemma CurrentBranch_detached:
  assumes "\<not> fst (fst (g [''symbolic-ref'', ''--short'', ''HEAD''] (world s)))"
  shows "fst (CurrentBranch g s) = ([], Some (Errorf ''not on any branch''))"
  using assms
  by (cases "g [''symbolic-ref'', ''--short'', ''HEAD''] (world s)")
     (auto simp: CurrentBranch_def execGit_def logCmd_def Let_def)

lemma ext_Fetch: "Fetch g remote s = (r, s') \<Longrightarrow> extends_quietly s s'"
  by (auto simp: Fetch_def touches_checkout_def dest: ext_Spawn)

lemma ext_BranchRemotes: "BranchRemotes g s = (r, s') \<Longrightarrow> extends_quietly s s'"
  by (auto simp: BranchRemotes_def touches_checkout_def
           split: prod.splits sum.splits dest: ext_execGit)

lemma ext_LocalBranches: "LocalBranches g s = (r, s') \<Longrightarrow> extends_quietly s s'"
  by (auto simp: LocalBranches_def touches_checkout_def
           split: prod.splits sum.splits dest: ext_execGit)

lemma LocalBranches_names:
  assumes "LocalBranches g s = (Inr branches, s')"
  shows "branches
           = splitLines (trimRight (snd (fst (g [''branch'', ''--format=%(refname:short)'']
                                             (world s)))))"
  using assms
  by (auto simp: LocalBranches_def execGit_def logCmd_def Let_def
           split: prod.splits sum.splits if_splits)

lemma ext_issued:
  "extends_quietly s s' \<Longrightarrow>
     cmds s' = cmds s @ issued s s' \<and> \<not> list_ex touches_checkout (issued s s')"
  by (auto simp: extends_quietly_def issued_def)

lemma ext_mem: "extends_quietly s1 s2 \<Longrightarrow> c \<in> set (cmds s1) \<Longrightarrow> c \<in> set (cmds s2)"
  by (auto simp: extends_quietly_def)

text \<open>
  Claim C9. Let the backend fail to resolve the current branch, as it does on a detached
  \<^verbatim>\<open>HEAD\<close>, and let it list no branch with an empty name. Then \<open>sync\<close> goes on
  with the empty string as current branch: when a remote was selected the fetch is issued,
  and no invocation of the whole run is a \<^verbatim>\<open>merge\<close> or a \<^verbatim>\<open>checkout\<close>, so every
  fast-forward is a reference update and every deletion is a bare \<^verbatim>\<open>branch -D\<close>.
\<close>

theorem detached_head_run:
  assumes det: "\<forall>w. \<not> fst (fst (g [''symbolic-ref'', ''--short'', ''HEAD''] w))"
      and names: "\<forall>w. [] \<notin> set (splitLines (trimRight (snd (fst
                      (g [''branch'', ''--format=%(refname:short)''] w)))))"
  shows "cmds (snd (sync g useColor s)) = cmds s @ issued s (snd (sync g useColor s))
         \<and> \<not> list_ex touches_checkout (issued s (snd (sync g useColor s)))
         \<and> (\<forall>remote s1. MainRemote g s = (Inr remote, s1) \<longrightarrow>
               [''fetch'', ''--prune'', ''--quiet'', ''--progress'', remote]
                 \<in> set (issued s (snd (sync g useColor s))))"
proof -
  obtain x s1 where mr: "MainRemote g s = (x, s1)" by (metis surj_pair)
  then have 1: "extends_quietly s s1" by (rule ext_MainRemote)
  show ?thesis
  proof (cases x)
    case (Inl e)
    with mr have "snd (sync g useColor s) = s1" by (simp add: sync_def)
    with 1 mr Inl show ?thesis by (simp add: ext_issued)
  next
    case (Inr remote)
    obtain db s2 where d: "DefaultBranch g remote s1 = (db, s2)" by (metis surj_pair)
    then have "extends_quietly s1 s2" by (rule ext_DefaultBranch)
    with 1 have 2: "extends_quietly s s2" by (rule ext_trans)
    obtain cb s3 where c: "CurrentBranch g s2 = (cb, s3)" by (metis surj_pair)
    then have "extends_quietly s2 s3" by (rule ext_CurrentBranch)
    with 2 have 3: "extends_quietly s s3" by (rule ext_trans)
    from det c CurrentBranch_detached [of g s2] have cb: "fst cb = []" by simp
    obtain fe s4 where f: "Fetch g remote s3 = (fe, s4)" by (metis surj_pair)
    then have "extends_quietly s3 s4" by (rule ext_Fetch)
    with 3 have 4: "extends_quietly s s4" by (rule ext_trans)
    have fetched: "[''fetch'', ''--prune'', ''--quiet'', ''--progress'', remote] \<in> set (cmds s4)"
      using Fetch_env [OF f] by simp
    have fresh: "[''fetch'', ''--prune'', ''--quiet'', ''--progress'', remote]
                   \<in> set (drop (length (cmds s)) (cmds s4))"
      using Fetch_env [OF f] 3 by (auto simp: extends_quietly_def)
    have rest: "extends_quietly s4 (snd (sync g useColor s))"
    proof (cases fe)
      case (Some e)
      with mr Inr d c f show ?thesis by (simp add: sync_def split: prod.splits)
    next
      case None
      obtain br s5 where b: "BranchRemotes g s4 = (br, s5)" by (metis surj_pair)
      then have 5: "extends_quietly s4 s5" by (rule ext_BranchRemotes)
      obtain lb s6 where l: "LocalBranches g s5 = (lb, s6)" by (metis surj_pair)
      then have "extends_quietly s5 s6" by (rule ext_LocalBranches)
      with 5 have 6: "extends_quietly s4 s6" by (rule ext_trans)
      show ?thesis
      proof (cases lb)
        case (Inl e)
        with mr Inr d c f None b l 6 show ?thesis by (simp add: sync_def split: prod.splits)
      next
        case lb: (Inr branches)
        from LocalBranches_names l lb names have ne: "[] \<notin> set branches" by metis
        define v where "v = \<lparr>v_useColor = useColor, v_remote = remote, v_defaultBranch = db,
            v_defaultRef = ''refs/remotes/'' @ remote @ ''/'' @ db, v_branchRemotes = br\<rparr>"
        from mr Inr d c f None b l lb cb
        have run: "sync g useColor s = sync_loop g v [] branches s6"
          by (cases cb) (simp add: sync_def v_def)
        obtain e s7 where lp: "sync_loop g v [] branches s6 = (e, s7)" by (metis surj_pair)
        from ext_loop [OF ne lp] 6 have "extends_quietly s4 s7" by (metis ext_trans)
        with run lp show ?thesis by simp
      qed
    qed
    from 4 rest have all: "extends_quietly s (snd (sync g useColor s))" by (rule ext_trans)
    from rest fresh 4
    have "[''fetch'', ''--prune'', ''--quiet'', ''--progress'', remote]
            \<in> set (issued s (snd (sync g useColor s)))"
      by (auto simp: extends_quietly_def issued_def)
    with all mr Inr show ?thesis by (simp add: ext_issued)
  qed
qed

text \<open>
  Claim C9, witness: on a detached \<^verbatim>\<open>HEAD\<close> the branch \<^verbatim>\<open>main\<close>, one commit behind
  \<^verbatim>\<open>origin/main\<close>, is fast-forwarded by \<^verbatim>\<open>update-ref\<close>.
\<close>

theorem detached_head_run_witness:
  "sync (behind_git False) False env0
     = (None,
        \<lparr>world = (),
         cmds = [[''remote''],
                 [''symbolic-ref'', ''--quiet'', ''refs/remotes/origin/HEAD''],
                 [''symbolic-ref'', ''--short'', ''HEAD''],
                 [''fetch'', ''--prune'', ''--quiet'', ''--progress'', ''origin''],
                 [''config'', ''--get-regexp'', config_pattern],
                 [''branch'', ''--format=%(refname:short)''],
                 [''rev-parse'', ''--symbolic-full-name'', ''main'' @ upstream_suffix],
                 [''rev-parse'', ''--quiet'', ''refs/heads/main'',
                  ''refs/remotes/origin/main''],
                 [''merge-base'', ''--is-ancestor'', ''1111111aaaa'', ''2222222bbbb''],
                 [''update-ref'', ''refs/heads/main'', ''refs/remotes/origin/main'']],
         stdout = [''Updated branch main (was 1111111).'' @ [newline]], stderr = []\<rparr>)"
  using detached_head_run [of "behind_git False" False env0]
  by (simp add: git_defs sync_defs scripted_defs sync_def BranchRemotes_def
        re_branch_remote_def re_value_def re_dot_def re_space_def config_pattern_def
        prefix_code)

section \<open>Range\<close>

lemma IsAncestor_answer:
  "fst (IsAncestor g r s) = fst (fst (g [''merge-base'', ''--is-ancestor'', A r, B r] (world s)))"
  by (simp add: IsAncestor_def Run_def logCmd_def Let_def split: prod.splits)

text \<open>
  Claim C7. Let the backend keep the contract of the ancestry query, and let both
  identities of a range be commits of the repository. When the two identities are equal,
  \<open>IsIdentical\<close> and \<open>IsAncestor\<close> are true. When the first is a strict ancestor of
  the second in an acyclic history, \<open>IsIdentical\<close> is false, \<open>IsAncestor\<close> is true, and
  \<open>IsAncestor\<close> of the reversed range is false.
\<close>

theorem range_queries:
  assumes "ancestry_contract g commits parent"
      and "A r \<in> commits (world s)" and "B r \<in> commits (world s)"
  shows "(A r = B r \<longrightarrow> IsIdentical r \<and> fst (IsAncestor g r s))
    \<and> ((A r, B r) \<in> (parent (world s))\<^sup>+ \<and> acyclic (parent (world s)) \<longrightarrow>
          \<not> IsIdentical r \<and> fst (IsAncestor g r s)
          \<and> \<not> fst (IsAncestor g \<lparr>A = B r, B = A r\<rparr> s))"
proof -
  have fwd: "fst (IsAncestor g r s) = ((A r, B r) \<in> (parent (world s))\<^sup>*)"
    using assms by (simp add: IsAncestor_answer ancestry_contract_def)
  have bwd: "fst (IsAncestor g \<lparr>A = B r, B = A r\<rparr> s) = ((B r, A r) \<in> (parent (world s))\<^sup>*)"
    using assms by (simp add: IsAncestor_answer ancestry_contract_def)
  have "A r \<noteq> B r \<and> (B r, A r) \<notin> (parent (world s))\<^sup>*"
    if "(A r, B r) \<in> (parent (world s))\<^sup>+" "acyclic (parent (world s))"
    using that by (metis acyclic_def rtrancl_trancl_trancl)
  then show ?thesis
    by (auto simp: fwd bwd IsIdentical_def)
qed

lemma graph_git_contract: "ancestry_contract graph_git graph_commits set"
  by (simp add: ancestry_contract_def graph_git_def)

text \<open>
  Claim C7, witness: a history of two commits, the first the parent of the second.
\<close>

theorem range_queries_witness:
  "IsIdentical \<lparr>A = ''1111111aaaa'', B = ''1111111aaaa''\<rparr>
   \<and> fst (IsAncestor graph_git \<lparr>A = ''1111111aaaa'', B = ''1111111aaaa''\<rparr> two_commits)
   \<and> \<not> IsIdentical \<lparr>A = ''1111111aaaa'', B = ''2222222bbbb''\<rparr>
   \<and> fst (IsAncestor graph_git \<lparr>A = ''1111111aaaa'', B = ''2222222bbbb''\<rparr> two_commits)
   \<and> \<not> fst (IsAncestor graph_git \<lparr>A = ''2222222bbbb'', B = ''1111111aaaa''\<rparr> two_commits)"
proof -
  let ?r1 = "\<lparr>A = ''1111111aaaa'', B = ''1111111aaaa''\<rparr>"
  let ?r2 = "\<lparr>A = ''1111111aaaa'', B = ''2222222bbbb''\<rparr>"
  have c: "''1111111aaaa'' \<in> graph_commits (world two_commits)"
          "''2222222bbbb'' \<in> graph_commits (world two_commits)"
    by (simp_all add: two_commits_def graph_commits_def)
  have step: "(A ?r2, B ?r2) \<in> (set (world two_commits))\<^sup>+"
    by (auto simp: two_commits_def intro: r_into_trancl')
  have acyc: "acyclic (set (world two_commits))"
    by (simp add: two_commits_def acyclic_insert) (simp add: acyclic_def)
  from range_queries [OF graph_git_contract, of ?r1 two_commits] c
  have "IsIdentical ?r1 \<and> fst (IsAncestor graph_git ?r1 two_commits)" by simp
  moreover
  from range_queries [OF graph_git_contract, of ?r2 two_commits] c step acyc
  have "\<not> IsIdentical ?r2 \<and> fst (IsAncestor graph_git ?r2 two_commits)
        \<and> \<not> fst (IsAncestor graph_git \<lparr>A = B ?r2, B = A ?r2\<rparr> two_commits)"
    by simp
  ultimately show ?thesis by simp
qed


end
